theory Spec2Isabelle
  imports Main "HOL-Library.Word"
begin

section \<open>Bytes, list items, loosely typed values, errors\<close>

type_synonym byte = "8 word"
type_synonym bytes = "byte list"

text \<open>
  The data the recursive list codec works on (\<open>RlpStructuredData\<close>): a byte string, or a
  list of such items. A hex data string of the source (\<open>"0x7b..."\<close>) is modelled by the
  bytes it denotes, so \<open>"0x"\<close> is \<open>RBytes []\<close>.
\<close>

datatype rlp = RBytes bytes | RList "rlp list"

text \<open>
  The loosely typed values that reach the code where the TypeScript type is
  \<open>string | undefined\<close>, \<open>any\<close> or an object reference. \<open>JHex bs\<close> is a string
  holding the hex digits of \<open>bs\<close> (an address string, a data string), \<open>JStr s\<close> any other
  string, \<open>JRef a\<close> a reference to the object stored at address \<open>a\<close>.
\<close>

datatype jsval = JUndefined | JNull | JBool bool | JNum nat | JStr string | JHex bytes | JRef nat

text \<open>JavaScript truthiness, as used by \<open>&&\<close>, \<open>||\<close> and \<open>if\<close>.\<close>

fun truthy :: "jsval \<Rightarrow> bool" where
  "truthy JUndefined = False"
| "truthy JNull = False"
| "truthy (JBool b) = b"
| "truthy (JNum n) = (n \<noteq> 0)"
| "truthy (JStr s) = (s \<noteq> [])"
| "truthy (JHex bs) = True"
| "truthy (JRef a) = True"

text \<open>
  Modelled from the spec: \<open>assertArgument\<close> and \<open>assert\<close> of \<open>../utils\<close> are
  not under src/. The spec, section 7: a validation error "carries the field name and/or
  offending raw value", and there is an "unsupported-operation error". Errors are values:
  \<open>INVALID_ARGUMENT message name value\<close> is what \<open>assertArgument\<close> raises with its
  three arguments, \<open>UNSUPPORTED_OPERATION message operation\<close> what \<open>assert\<close> raises
  with that code. \<open>TYPE_ERROR\<close> is the language's own error on a property access
  through \<open>undefined\<close>; \<open>RLP_FAILURE\<close> and \<open>SIGNATURE_FAILURE\<close> stand for any
  failure raised inside the list decoder and inside the shared signature routine.
\<close>

datatype errval = VBytes bytes | VItem rlp | VJs jsval

datatype error =
    INVALID_ARGUMENT string string errval
  | UNSUPPORTED_OPERATION string string
  | TYPE_ERROR
  | RLP_FAILURE
  | SIGNATURE_FAILURE

text \<open>Sequencing: an error ends the computation, as a thrown exception does.\<close>

definition ebind :: "'e + 'a \<Rightarrow> ('a \<Rightarrow> 'e + 'b) \<Rightarrow> 'e + 'b" where
  "ebind m f = (case m of Inl e \<Rightarrow> Inl e | Inr x \<Rightarrow> f x)"

definition CIP_64_TYPE_NUMBER :: nat where
  "CIP_64_TYPE_NUMBER = 123"

definition CIP_64_TYPE_HEX :: bytes where
  "CIP_64_TYPE_HEX = [0x7b]"

section \<open>Helpers of the transaction module\<close>

text \<open>
  Modelled from the spec: \<open>getAddress\<close> of \<open>../address\<close> is not under src/. The spec
  gives it as the address validator/normalizer, "normalize(string|bytes) -> 20-byte
  checksummed address, fails on malformed input", and an address as "exactly 20 bytes".
  An address is modelled by its 20 bytes; the upper and lower case of the checksummed
  rendering does not exist at this level.
\<close>

fun getAddress :: "jsval \<Rightarrow> error + bytes" where
  "getAddress (JHex bs) =
     (if length bs = 20 then Inr bs
      else Inl (INVALID_ARGUMENT ''invalid address'' ''address'' (VJs (JHex bs))))"
| "getAddress v = Inl (INVALID_ARGUMENT ''invalid address'' ''address'' (VJs v))"

text \<open>
  Modelled from the spec: \<open>toBeArray\<close> of \<open>../utils\<close> is not under src/. The spec,
  section 4.1 step 2: "minimal big-endian byte sequences with no leading zero byte (zero
  encodes as empty byte sequence)".
\<close>

fun toBeArray :: "nat \<Rightarrow> bytes" where
  "toBeArray n = (if n = 0 then [] else toBeArray (n div 256) @ [of_nat (n mod 256)])"

declare toBeArray.simps [simp del]

text \<open>
  Modelled from the spec: \<open>formatNumber\<close> of \<open>../transaction/transaction\<close> is not
  under src/. The spec, section 4.1 step 2: "Numeric fields are encoded as minimal
  big-endian byte sequences"; the second argument is the name of the field.
\<close>

definition formatNumber :: "nat \<Rightarrow> string \<Rightarrow> bytes" where
  "formatNumber v name = toBeArray v"

text \<open>
  Modelled from the spec: \<open>formatAccessList\<close> of \<open>../transaction/transaction\<close> is not
  under src/. The spec: "accessList is encoded as a nested list: outer list of pairs, each
  pair = [address bytes, list of 32-byte storage key byte sequences]; empty access list
  encodes as empty outer list".
\<close>

type_synonym accessList = "(bytes \<times> bytes list) list"

definition formatAccessList :: "accessList \<Rightarrow> rlp" where
  "formatAccessList al = RList (map (\<lambda>(a, ks). RList [RBytes a, RList (map RBytes ks)]) al)"

text \<open>
  Modelled from the spec: \<open>concat\<close> of \<open>../utils\<close> is not under src/. The spec,
  section 4.1 step 9: "Prepend the single-byte type tag 0x7b to the encoded list"; the
  byte strings are joined in order.
\<close>

definition concat_bytes :: "bytes list \<Rightarrow> bytes" where
  "concat_bytes bss = concat bss"

section \<open>The transaction value object\<close>

text \<open>
  Modelled from the spec: the class \<open>Signature\<close> of \<open>../crypto\<close> is not under src/.
  The spec's data model: "signature: optional (yParity: 0|1, r: 32-byte scalar, s: 32-byte
  scalar)". The scalars are numbers; \<open>r\<close> and \<open>s\<close> are named \<open>sig_r\<close> and
  \<open>sig_s\<close>.
\<close>

record Signature =
  yParity :: nat
  sig_r :: nat
  sig_s :: nat

text \<open>
  Modelled from the spec: the class \<open>Transaction\<close> of \<open>../transaction\<close> is not under
  src/. The spec's data model gives the fields: unsigned integers \<open>chainId\<close>,
  \<open>nonce\<close>, \<open>maxPriorityFeePerGas\<close>, \<open>maxFeePerGas\<close>, \<open>gasLimit\<close>,
  \<open>value\<close>; an optional 20-byte \<open>to\<close>; the bytes \<open>data\<close>; the \<open>accessList\<close>;
  an optional \<open>signature\<close>; section 4.3 adds \<open>gasPrice\<close>. A field that is
  \<open>null\<close> or was never assigned is \<open>None\<close>. The field \<open>value\<close> is named
  \<open>val\<close>.
\<close>

record Transaction =
  chainId :: "nat option"
  nonce :: "nat option"
  maxPriorityFeePerGas :: "nat option"
  maxFeePerGas :: "nat option"
  gasPrice :: "nat option"
  gasLimit :: "nat option"
  to :: "bytes option"
  val :: "nat option"
  data :: "bytes option"
  accessList :: "accessList option"
  signature :: "Signature option"

text \<open>
  \<open>class Cip64Transaction extends Transaction\<close> adds the private field
  \<open>#feeCurrency\<close>, read through the getter \<open>feeCurrency\<close>. The class of celo.ts
  (src/src.ts/chain/celo.ts) initialises it to the empty string, the class of the plugin
  file (src/unnamed/part_000) leaves it \<open>undefined\<close>.
\<close>

record Cip64Transaction = Transaction +
  feeCurrency :: jsval

text \<open>\<open>set feeCurrency(value) { this.#feeCurrency = getAddress(value); }\<close>\<close>

definition set_feeCurrency :: "Cip64Transaction \<Rightarrow> jsval \<Rightarrow> error + Cip64Transaction" where
  "set_feeCurrency this v =
     ebind (getAddress v) (\<lambda>a. Inr (this\<lparr>feeCurrency := JHex a\<rparr>))"

text \<open>\<open>x || 0\<close> on a numeric field: a falsy value (\<open>null\<close>, zero) gives zero.\<close>

definition orZero :: "nat option \<Rightarrow> nat" where
  "orZero v = (case v of None \<Rightarrow> 0 | Some n \<Rightarrow> if n = 0 then 0 else n)"

section \<open>Serialization (celo.ts)\<close>

text \<open>
  \<open>Cip64Transaction.serialize\<close>, celo.ts lines 51-72. The list codec \<open>encodeRlp\<close> of
  \<open>../utils\<close> is not under src/ and the spec takes it as a black box, so it is a
  parameter. The array elements are evaluated in order: the address check of \<open>to\<close>
  comes before the one of \<open>feeCurrency\<close>.
\<close>

definition serialize ::
  "(rlp \<Rightarrow> bytes) \<Rightarrow> Cip64Transaction \<Rightarrow> Signature option \<Rightarrow> error + bytes" where
  "serialize encodeRlp this sg =
     ebind (case to this of Some a \<Rightarrow> getAddress (JHex a) | None \<Rightarrow> Inr []) (\<lambda>toField.
     ebind (getAddress (feeCurrency this)) (\<lambda>feeCurrencyField.
       let fields =
            [RBytes (formatNumber (orZero (chainId this)) ''chainId''),
             RBytes (formatNumber (orZero (nonce this)) ''nonce''),
             RBytes (formatNumber (orZero (maxPriorityFeePerGas this)) ''maxPriorityFeePerGas''),
             RBytes (formatNumber (orZero (maxFeePerGas this)) ''maxFeePerGas''),
             RBytes (formatNumber (orZero (gasLimit this)) ''gasLimit''),
             RBytes toField,
             RBytes (formatNumber (orZero (val this)) ''value''),
             RBytes (case data this of Some d \<Rightarrow> d | None \<Rightarrow> []),
             formatAccessList (case accessList this of Some al \<Rightarrow> al | None \<Rightarrow> []),
             RBytes feeCurrencyField];
           fields' =
            (case sg of
               Some s \<Rightarrow>
                 fields @ [RBytes (formatNumber (yParity s) ''yParity''),
                           RBytes (toBeArray (sig_r s)),
                           RBytes (toBeArray (sig_s s))]
             | None \<Rightarrow> fields)
       in Inr (concat_bytes [CIP_64_TYPE_HEX, encodeRlp (RList fields')])))"

text \<open>The getters \<open>unsignedSerialized\<close> and \<open>serialized\<close>, celo.ts lines 41-49.\<close>

definition unsignedSerialized :: "(rlp \<Rightarrow> bytes) \<Rightarrow> Cip64Transaction \<Rightarrow> error + bytes" where
  "unsignedSerialized encodeRlp this = serialize encodeRlp this None"

definition serialized :: "(rlp \<Rightarrow> bytes) \<Rightarrow> Cip64Transaction \<Rightarrow> error + bytes" where
  "serialized encodeRlp this =
     (if signature this \<noteq> None then serialize encodeRlp this (signature this)
      else Inl (UNSUPPORTED_OPERATION
             ''cannot serialize unsigned transaction; maybe you meant .unsignedSerialized''
             ''.serialized''))"

text \<open>
  The class of the plugin file (lines 17-66) has the same three members: \<open>serialize\<close>
  (lines 44-65) and the two getters (lines 34-42). They are embedded a second time, from
  that text, under the prefix \<open>plugin_\<close>.
\<close>

definition plugin_serialize ::
  "(rlp \<Rightarrow> bytes) \<Rightarrow> Cip64Transaction \<Rightarrow> Signature option \<Rightarrow> error + bytes" where
  "plugin_serialize encodeRlp this sg =
     ebind (case to this of Some a \<Rightarrow> getAddress (JHex a) | None \<Rightarrow> Inr []) (\<lambda>toField.
     ebind (getAddress (feeCurrency this)) (\<lambda>feeCurrencyField.
       let fields =
            [RBytes (formatNumber (orZero (chainId this)) ''chainId''),
             RBytes (formatNumber (orZero (nonce this)) ''nonce''),
             RBytes (formatNumber (orZero (maxPriorityFeePerGas this)) ''maxPriorityFeePerGas''),
             RBytes (formatNumber (orZero (maxFeePerGas this)) ''maxFeePerGas''),
             RBytes (formatNumber (orZero (gasLimit this)) ''gasLimit''),
             RBytes toField,
             RBytes (formatNumber (orZero (val this)) ''value''),
             RBytes (case data this of Some d \<Rightarrow> d | None \<Rightarrow> []),
             formatAccessList (case accessList this of Some al \<Rightarrow> al | None \<Rightarrow> []),
             RBytes feeCurrencyField];
           fields' =
            (case sg of
               Some s \<Rightarrow>
                 fields @ [RBytes (formatNumber (yParity s) ''yParity''),
                           RBytes (toBeArray (sig_r s)),
                           RBytes (toBeArray (sig_s s))]
             | None \<Rightarrow> fields)
       in Inr (concat_bytes [CIP_64_TYPE_HEX, encodeRlp (RList fields')])))"

definition plugin_unsignedSerialized ::
  "(rlp \<Rightarrow> bytes) \<Rightarrow> Cip64Transaction \<Rightarrow> error + bytes" where
  "plugin_unsignedSerialized encodeRlp this = plugin_serialize encodeRlp this None"

definition plugin_serialized :: "(rlp \<Rightarrow> bytes) \<Rightarrow> Cip64Transaction \<Rightarrow> error + bytes" where
  "plugin_serialized encodeRlp this =
     (if signature this \<noteq> None then plugin_serialize encodeRlp this (signature this)
      else Inl (UNSUPPORTED_OPERATION
             ''cannot serialize unsigned transaction; maybe you meant .unsignedSerialized''
             ''.serialized''))"

text \<open>
  Modelled from the spec: \<open>new Transaction()\<close> gives "a default, empty base
  transaction"; the constructor is not under src/. A new \<open>Cip64Transaction\<close> has the
  base fields of a new \<open>Transaction\<close> and the initial value of \<open>#feeCurrency\<close>:
  the empty string in celo.ts (line 25), nothing in the plugin file (line 18).
\<close>

definition new_Transaction :: Transaction where
  "new_Transaction =
     \<lparr>chainId = None, nonce = None, maxPriorityFeePerGas = None, maxFeePerGas = None,
      gasPrice = None, gasLimit = None, to = None, val = None, data = None,
      accessList = None, signature = None\<rparr>"

definition new_Cip64Transaction :: Cip64Transaction where
  "new_Cip64Transaction = Transaction.extend new_Transaction \<lparr>feeCurrency = JStr []\<rparr>"

definition plugin_new_Cip64Transaction :: Cip64Transaction where
  "plugin_new_Cip64Transaction =
     Transaction.extend new_Transaction \<lparr>feeCurrency = JUndefined\<rparr>"

section \<open>Field decoders of the transaction module\<close>

text \<open>
  Modelled from the spec: the reading of a byte string as a number inside the numeric
  decoders, which are not under src/. The spec, section 6: "All integers: minimal
  big-endian, no leading zero byte, zero = empty".
\<close>

definition fromBe :: "bytes \<Rightarrow> nat" where
  "fromBe bs = foldl (\<lambda>acc b. acc * 256 + unat b) 0 bs"

text \<open>
  The field decoders \<open>handleUint\<close>, \<open>handleNumber\<close>, \<open>handleAddress\<close>,
  \<open>handleAccessList\<close> of \<open>../transaction/transaction\<close> and \<open>hexlify\<close> of
  \<open>../utils\<close> are not under src/; each is modelled from the spec's section 4.2. By
  step 6 a failure is "an argument error identifying which field and the offending raw
  value". An element that is a list where bytes are expected, or bytes where a list is
  expected, is malformed.
\<close>

text \<open>
  Modelled from the spec: \<open>handleUint\<close> is not under src/. Section 4.2 step 3: "decode
  as unsigned integer (fails if the raw bytes encode a negative-looking or malformed
  value)".
\<close>

fun handleUint :: "rlp \<Rightarrow> string \<Rightarrow> error + nat" where
  "handleUint (RBytes bs) param = Inr (fromBe bs)"
| "handleUint (RList xs) param =
     Inl (INVALID_ARGUMENT ''invalid BigNumberish value'' param (VItem (RList xs)))"

text \<open>
  Modelled from the spec: \<open>handleNumber\<close> is not under src/. Section 4.2 step 3: "decode
  as a plain (unsigned, bounded) number". The bound is that of a JavaScript number holding
  an exact integer.
\<close>

definition MAX_SAFE_INTEGER :: nat where
  "MAX_SAFE_INTEGER = 2 ^ 53 - 1"

fun handleNumber :: "rlp \<Rightarrow> string \<Rightarrow> error + nat" where
  "handleNumber (RBytes bs) param =
     (if fromBe bs \<le> MAX_SAFE_INTEGER then Inr (fromBe bs)
      else Inl (INVALID_ARGUMENT ''overflow'' param (VItem (RBytes bs))))"
| "handleNumber (RList xs) param =
     Inl (INVALID_ARGUMENT ''invalid numeric value'' param (VItem (RList xs)))"

text \<open>
  Modelled from the spec: \<open>handleAddress\<close> is not under src/. Section 4.2 step 3:
  "decode as address if non-empty, else absent/null".
\<close>

fun handleAddress :: "rlp \<Rightarrow> error + bytes option" where
  "handleAddress (RBytes bs) =
     (if bs = [] then Inr None else ebind (getAddress (JHex bs)) (\<lambda>a. Inr (Some a)))"
| "handleAddress (RList xs) =
     Inl (INVALID_ARGUMENT ''invalid address'' ''address'' (VItem (RList xs)))"

text \<open>
  Modelled from the spec: \<open>hexlify\<close> is not under src/. Section 4.2 step 3: "data: raw
  bytes, hex-encoded".
\<close>

fun hexlify :: "rlp \<Rightarrow> error + bytes" where
  "hexlify (RBytes bs) = Inr bs"
| "hexlify (RList xs) =
     Inl (INVALID_ARGUMENT ''invalid BytesLike value'' ''value'' (VItem (RList xs)))"

text \<open>A fallible function over a list, stopping at the first failure.\<close>

fun mapM :: "('a \<Rightarrow> error + 'b) \<Rightarrow> 'a list \<Rightarrow> error + 'b list" where
  "mapM f [] = Inr []"
| "mapM f (x # xs) = ebind (f x) (\<lambda>y. ebind (mapM f xs) (\<lambda>ys. Inr (y # ys)))"

text \<open>
  Modelled from the spec: \<open>handleAccessList\<close> is not under src/. Section 4.2 step 3:
  "decode each pair into (address, ordered list of storage keys); fails if shape
  malformed"; section 3: an access list is a "sequence of (address, ordered sequence of
  32-byte storage keys) pairs". \<open>storageKey\<close> decodes a key, \<open>accessSet\<close> a pair.
\<close>

fun storageKey :: "string \<Rightarrow> rlp \<Rightarrow> error + bytes" where
  "storageKey param (RBytes k) =
     (if length k = 32 then Inr k
      else Inl (INVALID_ARGUMENT ''invalid slot'' param (VItem (RBytes k))))"
| "storageKey param (RList xs) =
     Inl (INVALID_ARGUMENT ''invalid slot'' param (VItem (RList xs)))"

fun accessSet :: "string \<Rightarrow> rlp \<Rightarrow> error + (bytes \<times> bytes list)" where
  "accessSet param (RList [RBytes a, RList ks]) =
     (if length a = 20 then ebind (mapM (storageKey param) ks) (\<lambda>ks'. Inr (a, ks'))
      else Inl (INVALID_ARGUMENT ''invalid address'' param (VItem (RBytes a))))"
| "accessSet param x = Inl (INVALID_ARGUMENT ''invalid slot set'' param (VItem x))"

fun handleAccessList :: "rlp \<Rightarrow> string \<Rightarrow> error + accessList" where
  "handleAccessList (RList sets) param = mapM (accessSet param) sets"
| "handleAccessList (RBytes bs) param =
     Inl (INVALID_ARGUMENT ''invalid access list'' param (VItem (RBytes bs)))"

section \<open>Parsing\<close>

text \<open>The type \<open>CeloCustomData\<close>, plugin file lines 13-15.\<close>

record CeloCustomData =
  customData_feeCurrency :: jsval

text \<open>
  Modelled from the spec: the interface \<open>TransactionLike\<close> of \<open>../transaction\<close> is
  not under src/. Its fields are those the two parsers assign (celo.ts lines 82-100, plugin
  file lines 151-171) and \<open>create\<close> reads; the spec's sections 3 and 4.2 give their
  kinds. The field set has the two places a fee currency is carried: the property
  \<open>feeCurrency\<close> that \<open>CeloTransactionLike\<close> of celo.ts adds (lines 12-14), and the
  \<open>customData\<close> bag the plugin uses. A property that is not there reads as
  \<open>undefined\<close>. The fields carry the prefix \<open>tx_\<close>.
\<close>

record TransactionLike =
  tx_type :: "nat option"
  tx_chainId :: "nat option"
  tx_nonce :: "nat option"
  tx_maxPriorityFeePerGas :: "nat option"
  tx_maxFeePerGas :: "nat option"
  tx_gasPrice :: "nat option"
  tx_gasLimit :: "nat option"
  tx_to :: "bytes option"
  tx_value :: "nat option"
  tx_data :: "bytes option"
  tx_accessList :: "accessList option"
  tx_hash :: "bytes option"
  tx_signature :: "Signature option"
  tx_feeCurrency :: jsval
  tx_customData :: "CeloCustomData option"

text \<open>\<open>null | string\<close> as a value, and \<open>v || undefined\<close>.\<close>

definition nullable :: "bytes option \<Rightarrow> jsval" where
  "nullable v = (case v of None \<Rightarrow> JNull | Some a \<Rightarrow> JHex a)"

definition orUndefined :: "jsval \<Rightarrow> jsval" where
  "orUndefined v = (if truthy v then v else JUndefined)"

definition field_count_error :: "bytes \<Rightarrow> error" where
  "field_count_error raw =
     INVALID_ARGUMENT ''invalid field count for transaction type: CIP_64_TYPE_NUMBER''
       ''data'' (VBytes raw)"

text \<open>
  \<open>Cip64Transaction.parseCip64\<close>, celo.ts lines 74-105. The collaborators that are not
  under src/ and that the spec takes as black boxes are parameters: the list decoder
  \<open>decodeRlp\<close>, the digest \<open>keccak256\<close> and the shared signature routine
  \<open>parseEipSignature\<close>, which here returns the signature it attaches; \<open>None\<close> is a
  failure inside the collaborator. \<open>fields[i]\<close> is read only after the count check, so
  every index used is in range. The argument \<open>data\<close> is named \<open>raw\<close> and the array \<open>fields\<close> is named \<open>fs\<close>. The two fee fields are decoded first, then the object
  literal's fields in their order.
\<close>

definition parseCip64 ::
  "(bytes \<Rightarrow> rlp option) \<Rightarrow> (bytes \<Rightarrow> bytes) \<Rightarrow> (rlp list \<Rightarrow> Signature option) \<Rightarrow>
     bytes \<Rightarrow> error + TransactionLike" where
  "parseCip64 decodeRlp keccak256 parseEipSignature raw =
     (case decodeRlp (drop 1 raw) of
        None \<Rightarrow> Inl RLP_FAILURE
      | Some (RBytes bs) \<Rightarrow> Inl (field_count_error raw)
      | Some (RList fs) \<Rightarrow>
          if \<not> (length fs = 10 \<or> length fs = 13) then Inl (field_count_error raw)
          else
            ebind (handleUint (fs ! 2) ''maxPriorityFeePerGas'') (\<lambda>maxPriorityFeePerGas.
            ebind (handleUint (fs ! 3) ''maxFeePerGas'') (\<lambda>maxFeePerGas.
            ebind (handleUint (fs ! 0) ''chainId'') (\<lambda>chainId.
            ebind (handleNumber (fs ! 1) ''nonce'') (\<lambda>nonce.
            ebind (handleUint (fs ! 4) ''gasLimit'') (\<lambda>gasLimit.
            ebind (handleAddress (fs ! 5)) (\<lambda>to.
            ebind (handleUint (fs ! 6) ''value'') (\<lambda>value.
            ebind (hexlify (fs ! 7)) (\<lambda>data'.
            ebind (handleAccessList (fs ! 8) ''accessList'') (\<lambda>accessList.
            ebind (handleAddress (fs ! 9)) (\<lambda>feeCurrency.
              let tx = \<lparr>tx_type = Some CIP_64_TYPE_NUMBER,
                        tx_chainId = Some chainId,
                        tx_nonce = Some nonce,
                        tx_maxPriorityFeePerGas = Some maxPriorityFeePerGas,
                        tx_maxFeePerGas = Some maxFeePerGas,
                        tx_gasPrice = None,
                        tx_gasLimit = Some gasLimit,
                        tx_to = to,
                        tx_value = Some value,
                        tx_data = Some data',
                        tx_accessList = Some accessList,
                        tx_hash = None,
                        tx_signature = None,
                        tx_feeCurrency = orUndefined (nullable feeCurrency),
                        tx_customData = None\<rparr>
              in if length fs = 10 then Inr tx
                 else
                   (case parseEipSignature (drop 10 fs) of
                      None \<Rightarrow> Inl SIGNATURE_FAILURE
                    | Some sg \<Rightarrow>
                        Inr (tx\<lparr>tx_hash := Some (keccak256 raw),
                                tx_signature := Some sg\<rparr>)))))))))))))"

text \<open>\<open>CeloTransactionPlugin.parseCip64\<close>, plugin file lines 143-176.\<close>

definition plugin_parseCip64 ::
  "(bytes \<Rightarrow> rlp option) \<Rightarrow> (bytes \<Rightarrow> bytes) \<Rightarrow> (rlp list \<Rightarrow> Signature option) \<Rightarrow>
     bytes \<Rightarrow> error + TransactionLike" where
  "plugin_parseCip64 decodeRlp keccak256 parseEipSignature raw =
     (case decodeRlp (drop 1 raw) of
        None \<Rightarrow> Inl RLP_FAILURE
      | Some (RBytes bs) \<Rightarrow> Inl (field_count_error raw)
      | Some (RList fs) \<Rightarrow>
          if \<not> (length fs = 10 \<or> length fs = 13) then Inl (field_count_error raw)
          else
            ebind (handleUint (fs ! 2) ''maxPriorityFeePerGas'') (\<lambda>maxPriorityFeePerGas.
            ebind (handleUint (fs ! 3) ''maxFeePerGas'') (\<lambda>maxFeePerGas.
            ebind (handleUint (fs ! 0) ''chainId'') (\<lambda>chainId.
            ebind (handleNumber (fs ! 1) ''nonce'') (\<lambda>nonce.
            ebind (handleUint (fs ! 4) ''gasLimit'') (\<lambda>gasLimit.
            ebind (handleAddress (fs ! 5)) (\<lambda>to.
            ebind (handleUint (fs ! 6) ''value'') (\<lambda>value.
            ebind (hexlify (fs ! 7)) (\<lambda>data'.
            ebind (handleAccessList (fs ! 8) ''accessList'') (\<lambda>accessList.
            ebind (handleAddress (fs ! 9)) (\<lambda>feeCurrency.
              let tx = \<lparr>tx_type = Some CIP_64_TYPE_NUMBER,
                        tx_chainId = Some chainId,
                        tx_nonce = Some nonce,
                        tx_maxPriorityFeePerGas = Some maxPriorityFeePerGas,
                        tx_maxFeePerGas = Some maxFeePerGas,
                        tx_gasPrice = None,
                        tx_gasLimit = Some gasLimit,
                        tx_to = to,
                        tx_value = Some value,
                        tx_data = Some data',
                        tx_accessList = Some accessList,
                        tx_hash = None,
                        tx_signature = None,
                        tx_feeCurrency = JUndefined,
                        tx_customData =
                          Some \<lparr>customData_feeCurrency = nullable feeCurrency\<rparr>\<rparr>
              in if length fs = 10 then Inr tx
                 else
                   (case parseEipSignature (drop 10 fs) of
                      None \<Rightarrow> Inl SIGNATURE_FAILURE
                    | Some sg \<Rightarrow>
                        Inr (tx\<lparr>tx_hash := Some (keccak256 raw),
                                tx_signature := Some sg\<rparr>)))))))))))))"

section \<open>Construction from heterogeneous input (plugin file)\<close>

text \<open>
  The argument of \<open>create\<close>: nothing (a falsy value), an instance of the class, a hex
  string, or a field set. The result is an instance of the base class or of
  \<open>Cip64Transaction\<close>.
\<close>

datatype from_input =
    NoInput
  | FromInstance Cip64Transaction
  | FromString bytes
  | FromObject TransactionLike

datatype created = Base Transaction | Cip64 Cip64Transaction

text \<open>
  The branch of \<open>CeloTransactionPlugin.create\<close> for a field set, plugin file lines
  115-136. \<open>Transaction.from\<close>, the constructor of the base class, is not under src/ and
  is a parameter. Modelled from the spec: the property setters of the base class and
  \<open>Signature.from\<close> are not under src/; section 4.3 has the branch "copy over every
  present optional field ... only if the source field is not null/absent", so a setter
  stores what it is given. The setter of \<open>feeCurrency\<close> is the one of the class above.
  The argument \<open>from\<close> is named \<open>src\<close>.
\<close>

definition create_from_object ::
  "(from_input \<Rightarrow> error + Transaction) \<Rightarrow> TransactionLike \<Rightarrow> error + created" where
  "create_from_object Transaction_from src =
     (if tx_type src = Some CIP_64_TYPE_NUMBER \<and> tx_customData src \<noteq> None then
        ebind (set_feeCurrency plugin_new_Cip64Transaction
                 (customData_feeCurrency (the (tx_customData src)))) (\<lambda>t.
          let t = (if tx_to src \<noteq> None then t\<lparr>to := tx_to src\<rparr> else t);
              t = (if tx_nonce src \<noteq> None then t\<lparr>nonce := tx_nonce src\<rparr> else t);
              t = (if tx_gasLimit src \<noteq> None then t\<lparr>gasLimit := tx_gasLimit src\<rparr> else t);
              t = (if tx_gasPrice src \<noteq> None then t\<lparr>gasPrice := tx_gasPrice src\<rparr> else t);
              t = (if tx_maxPriorityFeePerGas src \<noteq> None
                   then t\<lparr>maxPriorityFeePerGas := tx_maxPriorityFeePerGas src\<rparr> else t);
              t = (if tx_maxFeePerGas src \<noteq> None
                   then t\<lparr>maxFeePerGas := tx_maxFeePerGas src\<rparr> else t);
              t = (if tx_data src \<noteq> None then t\<lparr>data := tx_data src\<rparr> else t);
              t = (if tx_value src \<noteq> None then t\<lparr>val := tx_value src\<rparr> else t);
              t = (if tx_chainId src \<noteq> None then t\<lparr>chainId := tx_chainId src\<rparr> else t);
              t = (if tx_signature src \<noteq> None then t\<lparr>signature := tx_signature src\<rparr> else t);
              t = (if tx_accessList src \<noteq> None then t\<lparr>accessList := tx_accessList src\<rparr> else t)
          in Inr (Cip64 t))
      else ebind (Transaction_from (FromObject src)) (\<lambda>b. Inr (Base b)))"

text \<open>
  \<open>CeloTransactionPlugin.create\<close>, plugin file lines 96-137. The call
  \<open>this.create(this.parseCip64(payload))\<close> passes a field set, which is truthy, no
  instance and no string, so it continues at line 115: the branch above.
\<close>

definition create ::
  "(bytes \<Rightarrow> rlp option) \<Rightarrow> (bytes \<Rightarrow> bytes) \<Rightarrow> (rlp list \<Rightarrow> Signature option) \<Rightarrow>
     (from_input \<Rightarrow> error + Transaction) \<Rightarrow> from_input \<Rightarrow> error + created" where
  "create decodeRlp keccak256 parseEipSignature Transaction_from src =
     (case src of
        NoInput \<Rightarrow> Inr (Base new_Transaction)
      | FromInstance t \<Rightarrow> Inr (Cip64 t)
      | FromString payload \<Rightarrow>
          if payload \<noteq> [] \<and> unat (hd payload) = CIP_64_TYPE_NUMBER then
            ebind (plugin_parseCip64 decodeRlp keccak256 parseEipSignature payload)
              (create_from_object Transaction_from)
          else ebind (Transaction_from (FromString payload)) (\<lambda>b. Inr (Base b))
      | FromObject obj \<Rightarrow> create_from_object Transaction_from obj)"

section \<open>Rewriting the gas-estimation request\<close>

text \<open>
  The rewrite assigns to a property of an object it was handed, so objects live in a
  store: an address holds a map from property names to values, and a value \<open>JRef a\<close>
  refers to the object at \<open>a\<close>. The request (\<open>method\<close>, here \<open>rpc_method\<close>, and
  the array \<open>args\<close>) and the context (\<open>method\<close>, here \<open>action_method\<close>, and the
  transaction object, by its address) are not assigned to and are values.
\<close>

type_synonym obj = "string \<Rightarrow> jsval option"
type_synonym heap = "nat \<Rightarrow> obj"

record JsonRpcRequestBody =
  rpc_method :: string
  args :: "jsval list"

record PerformActionRequest =
  action_method :: string
  transaction :: nat

text \<open>
  Reading \<open>v.k\<close>: a missing property of an object is \<open>undefined\<close>, so is one of a
  string, number or boolean; through \<open>undefined\<close> or \<open>null\<close> it is a TypeError.
  Writing \<open>v.k = x\<close> stores into the object; through anything that is not an object it is
  a TypeError (module code is strict).
\<close>

definition get_prop :: "heap \<Rightarrow> jsval \<Rightarrow> string \<Rightarrow> error + jsval" where
  "get_prop h v k =
     (case v of
        JRef a \<Rightarrow> Inr (case h a k of Some x \<Rightarrow> x | None \<Rightarrow> JUndefined)
      | JUndefined \<Rightarrow> Inl TYPE_ERROR
      | JNull \<Rightarrow> Inl TYPE_ERROR
      | _ \<Rightarrow> Inr JUndefined)"

definition set_prop :: "heap \<Rightarrow> jsval \<Rightarrow> string \<Rightarrow> jsval \<Rightarrow> error + heap" where
  "set_prop h v k x =
     (case v of
        JRef a \<Rightarrow> Inr (h(a := (h a)(k \<mapsto> x)))
      | _ \<Rightarrow> Inl TYPE_ERROR)"

text \<open>\<open>request.args[0]\<close>: an index out of range reads as \<open>undefined\<close>.\<close>

definition first_arg :: "JsonRpcRequestBody \<Rightarrow> jsval" where
  "first_arg request = (case args request of [] \<Rightarrow> JUndefined | x # xs \<Rightarrow> x)"

text \<open>\<open>celoAlfajores.getRpcRequest\<close>, celo.ts lines 167-177.\<close>

definition getRpcRequest ::
  "heap \<Rightarrow> JsonRpcRequestBody option \<Rightarrow> PerformActionRequest \<Rightarrow>
     error + (heap \<times> JsonRpcRequestBody option)" where
  "getRpcRequest h request context =
     (case request of
        None \<Rightarrow> Inr (h, None)
      | Some req \<Rightarrow>
          if rpc_method req = ''eth_estimateGas'' \<and> action_method context = ''estimateGas'' then
            ebind (get_prop h (JRef (transaction context)) ''feeCurrency'') (\<lambda>declared.
              if truthy declared then
                ebind (get_prop h (JRef (transaction context)) ''feeCurrency'') (\<lambda>v.
                ebind (set_prop h (first_arg req) ''feeCurrency'' v) (\<lambda>h'.
                  Inr (h', Some req)))
              else Inr (h, Some req))
          else Inr (h, Some req))"

text \<open>\<open>CeloRpcInterceptorPlugin.intercept\<close>, plugin file lines 69-79.\<close>

definition intercept ::
  "heap \<Rightarrow> JsonRpcRequestBody \<Rightarrow> PerformActionRequest \<Rightarrow>
     error + (heap \<times> JsonRpcRequestBody)" where
  "intercept h request context =
     (if rpc_method request = ''eth_estimateGas'' \<and> action_method context = ''estimateGas'' then
        ebind (get_prop h (JRef (transaction context)) ''customData'') (\<lambda>customData.
          if truthy customData then
            ebind (get_prop h customData ''feeCurrency'') (\<lambda>declared.
              if truthy declared then
                ebind (get_prop h (JRef (transaction context)) ''customData'') (\<lambda>customData'.
                ebind (get_prop h customData' ''feeCurrency'') (\<lambda>v.
                ebind (set_prop h (first_arg request) ''feeCurrency'' v) (\<lambda>h'.
                  Inr (h', request))))
              else Inr (h, request))
          else Inr (h, request))
      else Inr (h, request))"

section \<open>Reference instances of the collaborators\<close>

text \<open>
  The list codec, the signature routine and the digest are parameters of the functions
  above, and the theorems below hold for any of them. The instances here are what the
  theorems are applied to on concrete inputs.
\<close>

text \<open>
  Modelled from the spec: \<open>encodeRlp\<close> of \<open>../utils\<close> is not under src/. The spec,
  section 4.1 step 8: it "produces the canonical prefixed byte representation of a
  heterogeneous list of byte-strings/sub-lists", the recursive length prefix format.
  \<open>rlp_prefix\<close> is the prefix of a payload of \<open>n\<close> bytes.
\<close>

definition rlp_prefix :: "nat \<Rightarrow> nat \<Rightarrow> bytes" where
  "rlp_prefix offset n =
     (if n \<le> 55 then [of_nat (offset + n)]
      else of_nat (offset + 55 + length (toBeArray n)) # toBeArray n)"

fun rlp_encode :: "rlp \<Rightarrow> bytes" where
  "rlp_encode (RBytes bs) =
     (if length bs = 1 \<and> hd bs \<le> 0x7f then bs else rlp_prefix 0x80 (length bs) @ bs)"
| "rlp_encode (RList xs) =
     (let payload = concat (map rlp_encode xs) in rlp_prefix 0xc0 (length payload) @ payload)"

text \<open>
  Modelled from the spec: \<open>decodeRlp\<close> of \<open>../utils\<close> is not under src/. The spec,
  section 6: "decode(bytes) -> list of byte-strings | nested lists, fails on malformed
  length prefixes". \<open>split_at\<close> cuts a payload of a given length off, if there are that
  many bytes.
\<close>

definition split_at :: "nat \<Rightarrow> bytes \<Rightarrow> (bytes \<times> bytes) option" where
  "split_at n bs = (if n \<le> length bs then Some (take n bs, drop n bs) else None)"

text \<open>The header of an item: whether it is a list, its payload, and what follows it.\<close>

definition rlp_header :: "bytes \<Rightarrow> (bool \<times> bytes \<times> bytes) option" where
  "rlp_header bs =
     (case bs of
        [] \<Rightarrow> None
      | b # rest \<Rightarrow>
          if b \<le> 0x7f then Some (False, [b], rest)
          else if b \<le> 0xb7 then map_option (Pair False) (split_at (unat b - 0x80) rest)
          else if b \<le> 0xbf then
            (case split_at (unat b - 0xb7) rest of
               None \<Rightarrow> None
             | Some (l, rest') \<Rightarrow> map_option (Pair False) (split_at (fromBe l) rest'))
          else if b \<le> 0xf7 then map_option (Pair True) (split_at (unat b - 0xc0) rest)
          else
            (case split_at (unat b - 0xf7) rest of
               None \<Rightarrow> None
             | Some (l, rest') \<Rightarrow> map_option (Pair True) (split_at (fromBe l) rest')))"

function rlp_decode_item :: "bytes \<Rightarrow> (rlp \<times> bytes) option"
  and rlp_decode_items :: "bytes \<Rightarrow> rlp list option" where
  "rlp_decode_item bs =
     (case rlp_header bs of
        None \<Rightarrow> None
      | Some (is_list, payload, rest) \<Rightarrow>
          if is_list then
            (if length payload < length bs
             then map_option (\<lambda>xs. (RList xs, rest)) (rlp_decode_items payload)
             else None)
          else Some (RBytes payload, rest))"
| "rlp_decode_items bs =
     (if bs = [] then Some []
      else
        (case rlp_decode_item bs of
           None \<Rightarrow> None
         | Some (x, rest) \<Rightarrow>
             if length rest < length bs
             then map_option ((#) x) (rlp_decode_items rest)
             else None))"
  by pat_completeness auto
termination
  by (relation "measures [\<lambda>x. case x of Inl bs \<Rightarrow> length bs | Inr bs \<Rightarrow> length bs,
                           \<lambda>x. case x of Inl bs \<Rightarrow> 0 | Inr bs \<Rightarrow> Suc 0]") auto

declare rlp_decode_item.simps [simp del] rlp_decode_items.simps [simp del]

definition rlp_decode :: "bytes \<Rightarrow> rlp option" where
  "rlp_decode bs = (case rlp_decode_item bs of Some (x, []) \<Rightarrow> Some x | _ \<Rightarrow> None)"

text \<open>
  Modelled from the spec: \<open>parseEipSignature\<close> of \<open>../transaction/transaction\<close> is
  not under src/. The spec, section 4.2 step 5: it "validates yParity in {0,1}, normalizes
  r/s to fixed-width scalars" of 32 bytes.
\<close>

definition ref_parseEipSignature :: "rlp list \<Rightarrow> Signature option" where
  "ref_parseEipSignature fs =
     (case fs of
        [RBytes y, RBytes r, RBytes s] \<Rightarrow>
          if fromBe y \<le> 1 \<and> length r \<le> 32 \<and> length s \<le> 32
          then Some \<lparr>yParity = fromBe y, sig_r = fromBe r, sig_s = fromBe s\<rparr>
          else None
      | _ \<Rightarrow> None)"

text \<open>
  Modelled from the spec: \<open>keccak256\<close> of \<open>../crypto\<close> is not under src/. The spec,
  section 6: "digest(bytes) -> 32-byte value". This is not the real digest: it stands in
  for it where only the argument it is applied to matters.
\<close>

definition stand_in_digest :: "bytes \<Rightarrow> bytes" where
  "stand_in_digest bs = replicate 32 (of_nat (length bs))"

section \<open>The wire format in the spec's words, and example values\<close>

text \<open>
  The ten elements of the unsigned field list as the spec gives them (section 4.1 steps
  1-6 and section 6): chainId, nonce, maxPriorityFeePerGas, maxFeePerGas, gasLimit, to,
  value, data, accessList, feeCurrency; an absent number is zero, an absent \<open>to\<close> or
  \<open>data\<close> is the empty byte string, an absent access list is the empty list. \<open>fc\<close>
  is the fee currency address.
\<close>

definition spec_field_list :: "Cip64Transaction \<Rightarrow> bytes \<Rightarrow> rlp list" where
  "spec_field_list this fc =
     [RBytes (toBeArray (case chainId this of None \<Rightarrow> 0 | Some n \<Rightarrow> n)),
      RBytes (toBeArray (case nonce this of None \<Rightarrow> 0 | Some n \<Rightarrow> n)),
      RBytes (toBeArray (case maxPriorityFeePerGas this of None \<Rightarrow> 0 | Some n \<Rightarrow> n)),
      RBytes (toBeArray (case maxFeePerGas this of None \<Rightarrow> 0 | Some n \<Rightarrow> n)),
      RBytes (toBeArray (case gasLimit this of None \<Rightarrow> 0 | Some n \<Rightarrow> n)),
      RBytes (case to this of None \<Rightarrow> [] | Some a \<Rightarrow> a),
      RBytes (toBeArray (case val this of None \<Rightarrow> 0 | Some n \<Rightarrow> n)),
      RBytes (case data this of None \<Rightarrow> [] | Some d \<Rightarrow> d),
      RList (case accessList this of
               None \<Rightarrow> []
             | Some al \<Rightarrow> map (\<lambda>(a, ks). RList [RBytes a, RList (map RBytes ks)]) al),
      RBytes fc]"

text \<open>The three elements a signature adds (section 4.1 step 7).\<close>

definition spec_signature_fields :: "Signature \<Rightarrow> rlp list" where
  "spec_signature_fields sg =
     [RBytes (toBeArray (yParity sg)), RBytes (toBeArray (sig_r sg)),
      RBytes (toBeArray (sig_s sg))]"

text \<open>The recipient, when there is one, is a 20-byte address.\<close>

definition to_ok :: "Cip64Transaction \<Rightarrow> bool" where
  "to_ok this = (case to this of None \<Rightarrow> True | Some a \<Rightarrow> length a = 20)"

definition ex_address :: bytes where
  "ex_address =
     [0x87, 0x40, 0x69, 0xfa, 0x1e, 0xb1, 0x6d, 0x44, 0xd6, 0x22,
      0xf2, 0xe0, 0xca, 0x25, 0xee, 0xa1, 0x72, 0x36, 0x9b, 0xc1]"

text \<open>
  The scenario of the spec's section 8: chainId 44787, every other number zero, no
  recipient, no data, an empty access list.
\<close>

definition ex_tx :: Cip64Transaction where
  "ex_tx =
     \<lparr>chainId = Some 44787, nonce = Some 0, maxPriorityFeePerGas = Some 0,
      maxFeePerGas = Some 0, gasPrice = None, gasLimit = Some 0, to = None, val = Some 0,
      data = Some [], accessList = Some [], signature = None,
      feeCurrency = JHex ex_address\<rparr>"

definition ex_signature :: Signature where
  "ex_signature = \<lparr>yParity = 1, sig_r = 258, sig_s = 3\<rparr>"

definition ex_signed_tx :: Cip64Transaction where
  "ex_signed_tx = ex_tx\<lparr>signature := Some ex_signature\<rparr>"

text \<open>The serializations of \<open>ex_tx\<close> and of \<open>ex_signed_tx\<close> under the reference codec.\<close>

definition ex_raw_unsigned :: bytes where
  "ex_raw_unsigned =
     [0x7b, 0xe0, 0x82, 0xae, 0xf3, 0x80, 0x80, 0x80, 0x80, 0x80, 0x80, 0x80, 0xc0, 0x94]
     @ ex_address"

definition ex_raw_signed :: bytes where
  "ex_raw_signed =
     [0x7b, 0xe5, 0x82, 0xae, 0xf3, 0x80, 0x80, 0x80, 0x80, 0x80, 0x80, 0x80, 0xc0, 0x94]
     @ ex_address @ [0x01, 0x82, 0x01, 0x02, 0x03]"

text \<open>
  The values a parse result carries, for comparing the two variants: the decoded fields
  other than the fee currency, and the fee currency as the value the result holds,
  unchanged. The variant of celo.ts has it in the property \<open>feeCurrency\<close>, the plugin in
  \<open>customData.feeCurrency\<close>.
\<close>

definition decoded_values ::
  "TransactionLike \<Rightarrow>
     nat option \<times> nat option \<times> nat option \<times> nat option \<times> nat option \<times> nat option \<times>
     nat option \<times> bytes option \<times> nat option \<times> bytes option \<times> accessList option \<times>
     bytes option \<times> Signature option" where
  "decoded_values tx =
     (tx_type tx, tx_chainId tx, tx_nonce tx, tx_maxPriorityFeePerGas tx, tx_maxFeePerGas tx,
      tx_gasPrice tx, tx_gasLimit tx, tx_to tx, tx_value tx, tx_data tx, tx_accessList tx,
      tx_hash tx, tx_signature tx)"

definition customData_fee :: "TransactionLike \<Rightarrow> jsval" where
  "customData_fee tx =
     (case tx_customData tx of None \<Rightarrow> JUndefined | Some cd \<Rightarrow> customData_feeCurrency cd)"

definition celo_decoded where
  "celo_decoded tx = (decoded_values tx, tx_feeCurrency tx)"

definition plugin_decoded where
  "plugin_decoded tx = (decoded_values tx, customData_fee tx)"

text \<open>
  A valid field set, in the sense of the spec's data model: every numeric field is
  present, the nonce is a number the language holds exactly, \<open>data\<close> and the access
  list are present, every address has 20 bytes and every storage key 32, and the fee
  currency is set to a 20-byte address.
\<close>

definition valid_accessList :: "accessList \<Rightarrow> bool" where
  "valid_accessList al =
     list_all (\<lambda>(a, ks). length a = 20 \<and> list_all (\<lambda>k. length k = 32) ks) al"

definition valid_fields :: "Cip64Transaction \<Rightarrow> bool" where
  "valid_fields F \<longleftrightarrow>
     chainId F \<noteq> None \<and>
     (case nonce F of None \<Rightarrow> False | Some n \<Rightarrow> n \<le> MAX_SAFE_INTEGER) \<and>
     maxPriorityFeePerGas F \<noteq> None \<and> maxFeePerGas F \<noteq> None \<and> gasLimit F \<noteq> None \<and>
     to_ok F \<and> val F \<noteq> None \<and> data F \<noteq> None \<and>
     (case accessList F of None \<Rightarrow> False | Some al \<Rightarrow> valid_accessList al) \<and>
     (case feeCurrency F of JHex a \<Rightarrow> length a = 20 | _ \<Rightarrow> False)"

text \<open>
  The field set of an instance, as the result of a parse in celo.ts holds it: the type
  123, the ten fields, no gas price, no hash, no signature.
\<close>

definition field_set :: "Cip64Transaction \<Rightarrow> TransactionLike" where
  "field_set F =
     \<lparr>tx_type = Some CIP_64_TYPE_NUMBER,
      tx_chainId = chainId F,
      tx_nonce = nonce F,
      tx_maxPriorityFeePerGas = maxPriorityFeePerGas F,
      tx_maxFeePerGas = maxFeePerGas F,
      tx_gasPrice = None,
      tx_gasLimit = gasLimit F,
      tx_to = to F,
      tx_value = val F,
      tx_data = data F,
      tx_accessList = accessList F,
      tx_hash = None,
      tx_signature = None,
      tx_feeCurrency = feeCurrency F,
      tx_customData = None\<rparr>"

text \<open>The decoded top-level result is not a list of exactly 10 or exactly 13 elements.\<close>

definition bad_field_count :: "rlp \<Rightarrow> bool" where
  "bad_field_count item =
     (case item of RBytes bs \<Rightarrow> True | RList fs \<Rightarrow> \<not> (length fs = 10 \<or> length fs = 13))"

fun error_message :: "error \<Rightarrow> string" where
  "error_message (INVALID_ARGUMENT m n v) = m"
| "error_message (UNSUPPORTED_OPERATION m operation) = m"
| "error_message e = []"

text \<open>The elements 0 to 8 of a field list all decode.\<close>

definition other_fields_decode :: "rlp list \<Rightarrow> bool" where
  "other_fields_decode fs \<longleftrightarrow>
     \<not> isl (handleUint (fs ! 2) ''maxPriorityFeePerGas'') \<and>
     \<not> isl (handleUint (fs ! 3) ''maxFeePerGas'') \<and>
     \<not> isl (handleUint (fs ! 0) ''chainId'') \<and>
     \<not> isl (handleNumber (fs ! 1) ''nonce'') \<and>
     \<not> isl (handleUint (fs ! 4) ''gasLimit'') \<and>
     \<not> isl (handleAddress (fs ! 5)) \<and>
     \<not> isl (handleUint (fs ! 6) ''value'') \<and>
     \<not> isl (hexlify (fs ! 7)) \<and>
     \<not> isl (handleAccessList (fs ! 8) ''accessList'')"

definition ex_recipient :: bytes where
  "ex_recipient =
     [0x47, 0x1e, 0xce, 0x37, 0x50, 0xda, 0x23, 0x7f, 0x93, 0xb8,
      0xe3, 0x39, 0xc5, 0x36, 0x98, 0x9b, 0x89, 0x78, 0xa4, 0x38]"

definition ex_key :: bytes where
  "ex_key =
     [0x01, 0x01, 0x01, 0x01, 0x01, 0x01, 0x01, 0x01, 0x01, 0x01, 0x01, 0x01, 0x01, 0x01,
      0x01, 0x01, 0x01, 0x01, 0x01, 0x01, 0x01, 0x01, 0x01, 0x01, 0x01, 0x01, 0x01, 0x01,
      0x01, 0x01, 0x01, 0x01]"

text \<open>A transfer with a recipient, data and one access list entry, and its serialization.\<close>

definition ex_tx2 :: Cip64Transaction where
  "ex_tx2 =
     \<lparr>chainId = Some 44787, nonce = Some 7, maxPriorityFeePerGas = Some 1000000000,
      maxFeePerGas = Some 5000000000, gasPrice = None, gasLimit = Some 21000,
      to = Some ex_recipient, val = Some 1, data = Some [0xde, 0xad, 0xbe, 0xef],
      accessList = Some [(ex_recipient, [ex_key])], signature = None,
      feeCurrency = JHex ex_address\<rparr>"

definition ex_raw2 :: bytes where
  "ex_raw2 =
     [0x7b, 0xf8, 0x7c, 0x82, 0xae, 0xf3, 0x07, 0x84, 0x3b, 0x9a,
      0xca, 0x00, 0x85, 0x01, 0x2a, 0x05, 0xf2, 0x00, 0x82, 0x52,
      0x08, 0x94, 0x47, 0x1e, 0xce, 0x37, 0x50, 0xda, 0x23, 0x7f,
      0x93, 0xb8, 0xe3, 0x39, 0xc5, 0x36, 0x98, 0x9b, 0x89, 0x78,
      0xa4, 0x38, 0x01, 0x84, 0xde, 0xad, 0xbe, 0xef, 0xf8, 0x38,
      0xf7, 0x94, 0x47, 0x1e, 0xce, 0x37, 0x50, 0xda, 0x23, 0x7f,
      0x93, 0xb8, 0xe3, 0x39, 0xc5, 0x36, 0x98, 0x9b, 0x89, 0x78,
      0xa4, 0x38, 0xe1, 0xa0, 0x01, 0x01, 0x01, 0x01, 0x01, 0x01,
      0x01, 0x01, 0x01, 0x01, 0x01, 0x01, 0x01, 0x01, 0x01, 0x01,
      0x01, 0x01, 0x01, 0x01, 0x01, 0x01, 0x01, 0x01, 0x01, 0x01,
      0x01, 0x01, 0x01, 0x01, 0x01, 0x01, 0x94, 0x87, 0x40, 0x69,
      0xfa, 0x1e, 0xb1, 0x6d, 0x44, 0xd6, 0x22, 0xf2, 0xe0, 0xca,
      0x25, 0xee, 0xa1, 0x72, 0x36, 0x9b, 0xc1]"

text \<open>
  The example payload cut to nine elements (the fee currency is missing), and the example
  payload with the empty byte string as its tenth element.
\<close>

definition ex_raw_nine :: bytes where
  "ex_raw_nine =
     [0x7b, 0xcb, 0x82, 0xae, 0xf3, 0x80, 0x80, 0x80, 0x80, 0x80, 0x80, 0x80, 0xc0]"

definition ex_raw_no_fee :: bytes where
  "ex_raw_no_fee =
     [0x7b, 0xcc, 0x82, 0xae, 0xf3, 0x80, 0x80, 0x80, 0x80, 0x80, 0x80, 0x80, 0xc0, 0x80]"

definition ex_fields :: "rlp list" where
  "ex_fields =
     [RBytes [0xae, 0xf3], RBytes [], RBytes [], RBytes [], RBytes [], RBytes [], RBytes [],
      RBytes [], RList []]"

text \<open>
  The fee currency the context's transaction declares, in the spec's words ("the
  originating context's transaction declares a fee-currency"): the property
  \<open>feeCurrency\<close> of the transaction in celo.ts, the property \<open>feeCurrency\<close> of the
  transaction's \<open>customData\<close> object in the plugin. \<open>undefined\<close> when there is none.
\<close>

definition declared_feeCurrency :: "heap \<Rightarrow> PerformActionRequest \<Rightarrow> jsval" where
  "declared_feeCurrency h context =
     (case h (transaction context) ''feeCurrency'' of Some v \<Rightarrow> v | None \<Rightarrow> JUndefined)"

definition plugin_declared_feeCurrency :: "heap \<Rightarrow> PerformActionRequest \<Rightarrow> jsval" where
  "plugin_declared_feeCurrency h context =
     (case h (transaction context) ''customData'' of
        Some (JRef c) \<Rightarrow> (case h c ''feeCurrency'' of Some v \<Rightarrow> v | None \<Rightarrow> JUndefined)
      | _ \<Rightarrow> JUndefined)"

text \<open>
  A store with the first argument object of a request at address 1, a transaction that
  declares a fee currency at address 2, and a transaction that declares it in its
  \<open>customData\<close> (address 4) at address 3.
\<close>

definition ex_heap :: heap where
  "ex_heap =
     (\<lambda>a. Map.empty)
       (1 := [''to'' \<mapsto> JHex ex_recipient],
        2 := [''to'' \<mapsto> JHex ex_recipient, ''feeCurrency'' \<mapsto> JHex ex_address],
        3 := [''to'' \<mapsto> JHex ex_recipient, ''customData'' \<mapsto> JRef 4],
        4 := [''feeCurrency'' \<mapsto> JHex ex_address])"

definition ex_request :: JsonRpcRequestBody where
  "ex_request = \<lparr>rpc_method = ''eth_estimateGas'', args = [JRef 1]\<rparr>"

definition ex_context :: PerformActionRequest where
  "ex_context = \<lparr>action_method = ''estimateGas'', transaction = 2\<rparr>"

definition ex_plugin_context :: PerformActionRequest where
  "ex_plugin_context = \<lparr>action_method = ''estimateGas'', transaction = 3\<rparr>"

text \<open>The store in which the object at address 1 has gained the key \<open>feeCurrency\<close>.\<close>

definition ex_heap_after :: heap where
  "ex_heap_after = ex_heap(1 := (ex_heap 1)(''feeCurrency'' \<mapsto> JHex ex_address))"

text \<open>
  A field set of type 123 whose \<open>customData\<close> is present and has no \<open>feeCurrency\<close>,
  and a base class constructor that accepts anything.
\<close>

definition ex_object :: TransactionLike where
  "ex_object =
     (field_set ex_tx)\<lparr>tx_feeCurrency := JUndefined,
        tx_customData := Some \<lparr>customData_feeCurrency = JUndefined\<rparr>\<rparr>"

definition ex_Transaction_from :: "from_input \<Rightarrow> error + Transaction" where
  "ex_Transaction_from src = Inr new_Transaction"

section \<open>Basic facts\<close>

lemma ebind_Inl [simp]: "ebind (Inl e) f = Inl e"
  by (simp add: ebind_def)

lemma ebind_Inr [simp]: "ebind (Inr x) f = f x"
  by (simp add: ebind_def)

lemma toBeArray_0 [simp]: "toBeArray 0 = []"
  by (subst toBeArray.simps) simp

lemma toBeArray_numeral [simp]:
  "toBeArray (numeral k) = toBeArray (numeral k div 256) @ [of_nat (numeral k mod 256)]"
  by (subst toBeArray.simps) simp

lemma toBeArray_1 [simp]: "toBeArray (Suc 0) = [1]"
  by (subst toBeArray.simps) simp

lemma orZero_simps [simp]: "orZero None = 0" "orZero (Some n) = n"
  by (simp_all add: orZero_def)

lemma orZero_case: "orZero v = (case v of None \<Rightarrow> 0 | Some n \<Rightarrow> n)"
  by (cases v) simp_all

lemma map_case_option:
  "map f (case v of None \<Rightarrow> [] | Some al \<Rightarrow> al) =
   (case v of None \<Rightarrow> [] | Some al \<Rightarrow> map f al)"
  by (cases v) simp_all

lemma to_field:
  "to_ok this \<Longrightarrow>
   (case to this of Some a \<Rightarrow> getAddress (JHex a) | None \<Rightarrow> Inr []) =
   Inr (case to this of None \<Rightarrow> [] | Some a \<Rightarrow> a)"
  by (cases "to this") (simp_all add: to_ok_def)

section \<open>Serialization\<close>

text \<open>
  With a fee currency that is a 20-byte address and a well-formed recipient, \<open>serialize\<close>
  returns the type tag followed by the encoding of the spec's field list, with the three
  signature elements appended when a signature is passed.
\<close>

lemma serialize_ok:
  assumes "feeCurrency this = JHex fc" "length fc = 20" "to_ok this"
  shows "serialize encodeRlp this sg =
     Inr (0x7b # encodeRlp (RList (spec_field_list this fc @
        (case sg of None \<Rightarrow> [] | Some s \<Rightarrow> spec_signature_fields s))))"
  using assms
  by (cases sg)
     (simp_all add: serialize_def to_field orZero_case map_case_option spec_field_list_def
        spec_signature_fields_def formatNumber_def formatAccessList_def concat_bytes_def
        CIP_64_TYPE_HEX_def)

text \<open>
  C1. For a field set whose fee currency is a 20-byte address (and whose recipient, when
  present, is one), the unsigned serialization is the single byte 0x7b followed by the
  list encoding of exactly ten elements, in the order chainId, nonce,
  maxPriorityFeePerGas, maxFeePerGas, gasLimit, to, value, data, accessList, feeCurrency.
  An absent numeric field counts as zero, an absent \<open>to\<close> and an absent \<open>data\<close> are
  the empty byte string, an absent access list is the empty list. The list codec is
  arbitrary.
\<close>

theorem unsigned_serialization_layout:
  assumes "feeCurrency this = JHex fc" and "length fc = 20" and "to_ok this"
  shows "unsignedSerialized encodeRlp this =
     Inr (0x7b # encodeRlp (RList
       [RBytes (toBeArray (case chainId this of None \<Rightarrow> 0 | Some n \<Rightarrow> n)),
        RBytes (toBeArray (case nonce this of None \<Rightarrow> 0 | Some n \<Rightarrow> n)),
        RBytes (toBeArray (case maxPriorityFeePerGas this of None \<Rightarrow> 0 | Some n \<Rightarrow> n)),
        RBytes (toBeArray (case maxFeePerGas this of None \<Rightarrow> 0 | Some n \<Rightarrow> n)),
        RBytes (toBeArray (case gasLimit this of None \<Rightarrow> 0 | Some n \<Rightarrow> n)),
        RBytes (case to this of None \<Rightarrow> [] | Some a \<Rightarrow> a),
        RBytes (toBeArray (case val this of None \<Rightarrow> 0 | Some n \<Rightarrow> n)),
        RBytes (case data this of None \<Rightarrow> [] | Some d \<Rightarrow> d),
        RList (case accessList this of
                 None \<Rightarrow> []
               | Some al \<Rightarrow> map (\<lambda>(a, ks). RList [RBytes a, RList (map RBytes ks)]) al),
        RBytes fc]))"
  using serialize_ok [OF assms, of encodeRlp None]
  by (simp add: unsignedSerialized_def spec_field_list_def)

text \<open>
  The scenario of the spec, with the reference codec: 0x7b, the list prefix 0xe0, chainId
  44787 as 0x82 0xae 0xf3, seven empty byte strings, the empty list, and the 20-byte fee
  currency after its prefix 0x94.
\<close>

theorem unsigned_serialization_layout_witness:
  "feeCurrency ex_tx = JHex ex_address \<and> length ex_address = 20 \<and> to_ok ex_tx \<and>
   unsignedSerialized rlp_encode ex_tx =
     Inr ([0x7b, 0xe0, 0x82, 0xae, 0xf3, 0x80, 0x80, 0x80, 0x80, 0x80, 0x80, 0x80, 0xc0, 0x94]
          @ ex_address)"
proof -
  have a: "feeCurrency ex_tx = JHex ex_address" by (simp add: ex_tx_def)
  have b: "length ex_address = 20" by (simp add: ex_address_def)
  have c: "to_ok ex_tx" by (simp add: to_ok_def ex_tx_def)
  show ?thesis
    using unsigned_serialization_layout [OF a b c, of rlp_encode] a b c
    by (simp add: ex_tx_def ex_address_def rlp_prefix_def)
qed


lemma ebind_eq_Inl:
  "ebind m f = Inl e \<longleftrightarrow> m = Inl e \<or> (\<exists>x. m = Inr x \<and> f x = Inl e)"
  by (cases m) simp_all

lemma ebind_eq_Inr:
  "ebind m f = Inr y \<longleftrightarrow> (\<exists>x. m = Inr x \<and> f x = Inr y)"
  by (cases m) simp_all

lemma getAddress_Inl:
  "getAddress v = Inl e \<Longrightarrow> e = INVALID_ARGUMENT ''invalid address'' ''address'' (VJs v)"
  by (cases v) (auto split: if_splits)

text \<open>The only error \<open>serialize\<close> raises is the address error.\<close>

lemma serialize_error:
  "serialize encodeRlp this sg = Inl e \<Longrightarrow>
   \<exists>v. e = INVALID_ARGUMENT ''invalid address'' ''address'' v"
  by (cases "to this")
     (auto simp: serialize_def Let_def ebind_eq_Inl dest: getAddress_Inl split: if_splits)

lemma plugin_serialize_eq: "plugin_serialize encodeRlp this sg = serialize encodeRlp this sg"
  by (simp add: plugin_serialize_def serialize_def)

lemma serialize_signature_field [simp]:
  "serialize encodeRlp (this\<lparr>signature := s\<rparr>) sg = serialize encodeRlp this sg"
  by (simp add: serialize_def)

lemma serialize_unset:
  assumes "feeCurrency this = JStr [] \<or> feeCurrency this = JUndefined"
  shows "isl (serialize encodeRlp this sg)"
    and "to_ok this \<Longrightarrow> serialize encodeRlp this sg =
      Inl (INVALID_ARGUMENT ''invalid address'' ''address'' (VJs (feeCurrency this)))"
proof -
  have g: "getAddress (feeCurrency this) =
      Inl (INVALID_ARGUMENT ''invalid address'' ''address'' (VJs (feeCurrency this)))"
    using assms by auto
  show "isl (serialize encodeRlp this sg)"
    by (cases "to this"; cases "getAddress (JHex (the (to this)))")
       (simp_all add: serialize_def g)
  show "to_ok this \<Longrightarrow> serialize encodeRlp this sg =
      Inl (INVALID_ARGUMENT ''invalid address'' ''address'' (VJs (feeCurrency this)))"
    by (simp add: serialize_def to_field g)
qed

text \<open>
  C5. In the class of celo.ts and in the class of the plugin file alike: reading
  \<open>serialized\<close> fails with the unsupported-operation error, whose message names
  \<open>.unsignedSerialized\<close>, when no signature is present, and with no such error when one
  is present. With a signature (and a fee currency and recipient that serialize),
  \<open>serialized\<close> is the tag and the encoding of the ten elements followed by yParity, r
  and s; \<open>unsignedSerialized\<close> is the tag and the encoding of the ten elements, and does
  not depend on the signature field.
\<close>

theorem serialized_needs_signature:
  "(signature this = None \<longrightarrow>
      serialized encodeRlp this =
        Inl (UNSUPPORTED_OPERATION
              ''cannot serialize unsigned transaction; maybe you meant .unsignedSerialized''
              ''.serialized'') \<and>
      plugin_serialized encodeRlp this =
        Inl (UNSUPPORTED_OPERATION
              ''cannot serialize unsigned transaction; maybe you meant .unsignedSerialized''
              ''.serialized'')) \<and>
   (signature this \<noteq> None \<longrightarrow>
      (\<forall>msg operation.
         serialized encodeRlp this \<noteq> Inl (UNSUPPORTED_OPERATION msg operation) \<and>
         plugin_serialized encodeRlp this \<noteq> Inl (UNSUPPORTED_OPERATION msg operation))) \<and>
   (feeCurrency this = JHex fc \<and> length fc = 20 \<and> to_ok this \<longrightarrow>
      (\<forall>sg. signature this = Some sg \<longrightarrow>
         serialized encodeRlp this =
           Inr (0x7b # encodeRlp (RList (spec_field_list this fc @ spec_signature_fields sg))) \<and>
         plugin_serialized encodeRlp this =
           Inr (0x7b # encodeRlp (RList (spec_field_list this fc @ spec_signature_fields sg)))) \<and>
      unsignedSerialized encodeRlp this =
        Inr (0x7b # encodeRlp (RList (spec_field_list this fc))) \<and>
      plugin_unsignedSerialized encodeRlp this =
        Inr (0x7b # encodeRlp (RList (spec_field_list this fc)))) \<and>
   unsignedSerialized encodeRlp (this\<lparr>signature := s\<rparr>) = unsignedSerialized encodeRlp this \<and>
   plugin_unsignedSerialized encodeRlp (this\<lparr>signature := s\<rparr>) =
     plugin_unsignedSerialized encodeRlp this"
proof -
  have ps: "plugin_serialized encodeRlp t = serialized encodeRlp t"
    and pu: "plugin_unsignedSerialized encodeRlp t = unsignedSerialized encodeRlp t" for t
    by (simp_all add: plugin_serialized_def serialized_def plugin_unsignedSerialized_def
        unsignedSerialized_def plugin_serialize_eq)
  have 1: "serialized encodeRlp this =
        Inl (UNSUPPORTED_OPERATION
              ''cannot serialize unsigned transaction; maybe you meant .unsignedSerialized''
              ''.serialized'')" if "signature this = None"
    using that by (simp add: serialized_def)
  have 2: "serialized encodeRlp this \<noteq> Inl (UNSUPPORTED_OPERATION msg operation)"
    if "signature this \<noteq> None" for msg operation
    using that
      serialize_error [of encodeRlp this "signature this" "UNSUPPORTED_OPERATION msg operation"]
    by (auto simp: serialized_def)
  have 3: "serialized encodeRlp this =
           Inr (0x7b # encodeRlp (RList (spec_field_list this fc @ spec_signature_fields sg)))"
    if "feeCurrency this = JHex fc \<and> length fc = 20 \<and> to_ok this" "signature this = Some sg"
    for sg
    using that serialize_ok [of this fc encodeRlp "Some sg"] by (simp add: serialized_def)
  have 4: "unsignedSerialized encodeRlp this =
        Inr (0x7b # encodeRlp (RList (spec_field_list this fc)))"
    if "feeCurrency this = JHex fc \<and> length fc = 20 \<and> to_ok this"
    using that serialize_ok [of this fc encodeRlp None] by (simp add: unsignedSerialized_def)
  have 5: "unsignedSerialized encodeRlp (this\<lparr>signature := s\<rparr>) =
      unsignedSerialized encodeRlp this"
    by (simp add: unsignedSerialized_def)
  from 1 2 3 4 5 show ?thesis
    by (simp only: ps pu) blast
qed

text \<open>
  The example transaction without and with a signature, in both classes: the error, the
  thirteen-element bytes, and the ten-element bytes of the signed instance.
\<close>

theorem serialized_needs_signature_witness:
  "signature ex_tx = None \<and>
   serialized rlp_encode ex_tx =
     Inl (UNSUPPORTED_OPERATION
           ''cannot serialize unsigned transaction; maybe you meant .unsignedSerialized''
           ''.serialized'') \<and>
   plugin_serialized rlp_encode ex_tx =
     Inl (UNSUPPORTED_OPERATION
           ''cannot serialize unsigned transaction; maybe you meant .unsignedSerialized''
           ''.serialized'') \<and>
   signature ex_signed_tx = Some ex_signature \<and>
   feeCurrency ex_signed_tx = JHex ex_address \<and> length ex_address = 20 \<and> to_ok ex_signed_tx \<and>
   serialized rlp_encode ex_signed_tx = Inr ex_raw_signed \<and>
   plugin_serialized rlp_encode ex_signed_tx = Inr ex_raw_signed \<and>
   unsignedSerialized rlp_encode ex_signed_tx = Inr ex_raw_unsigned \<and>
   plugin_unsignedSerialized rlp_encode ex_signed_tx = Inr ex_raw_unsigned \<and>
   unsignedSerialized rlp_encode ex_tx = Inr ex_raw_unsigned \<and>
   plugin_unsignedSerialized rlp_encode ex_tx = Inr ex_raw_unsigned"
proof -
  have u: "signature ex_tx = None" by (simp add: ex_tx_def)
  have s: "signature ex_signed_tx = Some ex_signature" by (simp add: ex_signed_tx_def)
  have f: "feeCurrency ex_signed_tx = JHex ex_address \<and> length ex_address = 20 \<and>
      to_ok ex_signed_tx"
    by (simp add: ex_signed_tx_def ex_tx_def ex_address_def to_ok_def)
  have e: "ex_tx = ex_signed_tx\<lparr>signature := None\<rparr>"
    by (simp add: ex_signed_tx_def ex_tx_def)
  have fl: "0x7b # rlp_encode (RList (spec_field_list ex_signed_tx ex_address)) = ex_raw_unsigned"
    by (simp add: spec_field_list_def ex_signed_tx_def ex_tx_def ex_address_def
        ex_raw_unsigned_def rlp_prefix_def)
  have sl: "0x7b # rlp_encode (RList (spec_field_list ex_signed_tx ex_address @
        spec_signature_fields ex_signature)) = ex_raw_signed"
    by (simp add: spec_field_list_def spec_signature_fields_def ex_signed_tx_def ex_tx_def
        ex_address_def ex_signature_def ex_raw_signed_def rlp_prefix_def)
  from serialized_needs_signature [of ex_tx rlp_encode ex_address None] u
  have 1: "serialized rlp_encode ex_tx =
     Inl (UNSUPPORTED_OPERATION
           ''cannot serialize unsigned transaction; maybe you meant .unsignedSerialized''
           ''.serialized'')"
    and p1: "plugin_serialized rlp_encode ex_tx =
     Inl (UNSUPPORTED_OPERATION
           ''cannot serialize unsigned transaction; maybe you meant .unsignedSerialized''
           ''.serialized'')"
    by blast+
  note T = serialized_needs_signature [of ex_signed_tx rlp_encode ex_address None]
  from T s f have "serialized rlp_encode ex_signed_tx =
      Inr (0x7b # rlp_encode (RList (spec_field_list ex_signed_tx ex_address @
        spec_signature_fields ex_signature)))"
    and "plugin_serialized rlp_encode ex_signed_tx =
      Inr (0x7b # rlp_encode (RList (spec_field_list ex_signed_tx ex_address @
        spec_signature_fields ex_signature)))"
    by blast+
  then have 2: "serialized rlp_encode ex_signed_tx = Inr ex_raw_signed"
    and p2: "plugin_serialized rlp_encode ex_signed_tx = Inr ex_raw_signed"
    by (simp_all only: sl)
  from T f have "unsignedSerialized rlp_encode ex_signed_tx =
      Inr (0x7b # rlp_encode (RList (spec_field_list ex_signed_tx ex_address)))"
    and "plugin_unsignedSerialized rlp_encode ex_signed_tx =
      Inr (0x7b # rlp_encode (RList (spec_field_list ex_signed_tx ex_address)))"
    by blast+
  then have 3: "unsignedSerialized rlp_encode ex_signed_tx = Inr ex_raw_unsigned"
    and p3: "plugin_unsignedSerialized rlp_encode ex_signed_tx = Inr ex_raw_unsigned"
    by (simp_all only: fl)
  from T have "unsignedSerialized rlp_encode (ex_signed_tx\<lparr>signature := None\<rparr>) =
      unsignedSerialized rlp_encode ex_signed_tx"
    and "plugin_unsignedSerialized rlp_encode (ex_signed_tx\<lparr>signature := None\<rparr>) =
      plugin_unsignedSerialized rlp_encode ex_signed_tx"
    by blast+
  with 3 p3 e have 4: "unsignedSerialized rlp_encode ex_tx = Inr ex_raw_unsigned"
    and p4: "plugin_unsignedSerialized rlp_encode ex_tx = Inr ex_raw_unsigned"
    by (simp_all only:)
  from u 1 p1 s f 2 p2 3 p3 4 p4 show ?thesis by simp
qed

text \<open>
  C6. On an instance whose fee currency was never set (the field still holds its initial
  value: the empty string in celo.ts, \<open>undefined\<close> in the plugin file), both
  \<open>unsignedSerialized\<close> and \<open>serialized\<close> fail, in both variants, whatever the list
  codec: no bytes are produced and no default stands in for the field. With a well-formed
  recipient the failure of \<open>unsignedSerialized\<close> is the address error on the fee
  currency; \<open>serialized\<close> fails earlier when there is no signature (C5).
\<close>

theorem unset_feeCurrency_fails:
  assumes "feeCurrency this = JStr [] \<or> feeCurrency this = JUndefined"
  shows "isl (unsignedSerialized encodeRlp this) \<and> isl (serialized encodeRlp this) \<and>
     isl (plugin_unsignedSerialized encodeRlp this) \<and> isl (plugin_serialized encodeRlp this) \<and>
     (to_ok this \<longrightarrow>
        unsignedSerialized encodeRlp this =
          Inl (INVALID_ARGUMENT ''invalid address'' ''address'' (VJs (feeCurrency this))) \<and>
        plugin_unsignedSerialized encodeRlp this =
          Inl (INVALID_ARGUMENT ''invalid address'' ''address'' (VJs (feeCurrency this))))"
  using serialize_unset [OF assms]
  by (simp add: unsignedSerialized_def serialized_def plugin_unsignedSerialized_def
      plugin_serialized_def plugin_serialize_eq)

text \<open>A new instance of either class, and one of them with a signature assigned.\<close>

theorem unset_feeCurrency_fails_witness:
  "feeCurrency new_Cip64Transaction = JStr [] \<and>
   feeCurrency plugin_new_Cip64Transaction = JUndefined \<and>
   unsignedSerialized rlp_encode new_Cip64Transaction =
     Inl (INVALID_ARGUMENT ''invalid address'' ''address'' (VJs (JStr []))) \<and>
   isl (serialized rlp_encode new_Cip64Transaction) \<and>
   isl (serialized rlp_encode (new_Cip64Transaction\<lparr>signature := Some ex_signature\<rparr>)) \<and>
   plugin_unsignedSerialized rlp_encode plugin_new_Cip64Transaction =
     Inl (INVALID_ARGUMENT ''invalid address'' ''address'' (VJs JUndefined)) \<and>
   isl (plugin_serialized rlp_encode plugin_new_Cip64Transaction)"
proof -
  have a: "feeCurrency new_Cip64Transaction = JStr []"
    by (simp add: new_Cip64Transaction_def Transaction.extend_def)
  have b: "feeCurrency plugin_new_Cip64Transaction = JUndefined"
    by (simp add: plugin_new_Cip64Transaction_def Transaction.extend_def)
  have c: "to_ok new_Cip64Transaction" "to_ok plugin_new_Cip64Transaction"
    by (simp_all add: to_ok_def new_Cip64Transaction_def plugin_new_Cip64Transaction_def
        new_Transaction_def Transaction.extend_def)
  have a': "feeCurrency (new_Cip64Transaction\<lparr>signature := Some ex_signature\<rparr>) = JStr []"
    using a by simp
  show ?thesis
    using unset_feeCurrency_fails [of new_Cip64Transaction rlp_encode]
      unset_feeCurrency_fails [of plugin_new_Cip64Transaction rlp_encode]
      unset_feeCurrency_fails [of "new_Cip64Transaction\<lparr>signature := Some ex_signature\<rparr>" rlp_encode]
      a b c a'
    by simp
qed

section \<open>The two variants\<close>

lemma map_sum_ebind: "map_sum id g (ebind m f) = ebind m (\<lambda>x. map_sum id g (f x))"
  by (cases m) simp_all

lemma map_sum_case_option:
  "map_sum id g (case v of None \<Rightarrow> Inl e | Some s \<Rightarrow> Inr (h s)) =
   (case v of None \<Rightarrow> Inl e | Some s \<Rightarrow> Inr (g (h s)))"
  by (cases v) simp_all

text \<open>
  The result of the parser of celo.ts is the result of the plugin's parser with the fee
  currency taken out of \<open>customData\<close> and passed through \<open>|| undefined\<close>; the errors are
  the same. What the plugin holds there is \<open>null\<close> or a 20-byte address.
\<close>

lemma handleAddress_Some:
  "handleAddress x = Inr (Some a) \<Longrightarrow> x = RBytes a \<and> length a = 20"
  by (cases x) (auto simp: ebind_eq_Inr split: if_splits elim: getAddress.elims)

lemma handleAddress_None: "handleAddress x = Inr None \<Longrightarrow> x = RBytes []"
  by (cases x) (auto simp: ebind_eq_Inr split: if_splits)

lemma parse_variants_related:
  "map_sum id (\<lambda>tx. tx\<lparr>tx_feeCurrency := orUndefined (customData_fee tx),
                        tx_customData := None\<rparr>)
     (plugin_parseCip64 decodeRlp keccak256 parseEipSignature raw) =
   parseCip64 decodeRlp keccak256 parseEipSignature raw"
  by (simp add: parseCip64_def plugin_parseCip64_def map_sum_ebind map_sum_case_option
      customData_fee_def Let_def
      split: option.splits rlp.splits cong: option.case_cong)

lemma plugin_fee_source:
  assumes "plugin_parseCip64 decodeRlp keccak256 parseEipSignature raw = Inr tx"
  shows "\<exists>fs v. decodeRlp (drop 1 raw) = Some (RList fs) \<and> handleAddress (fs ! 9) = Inr v \<and>
           customData_fee tx = nullable v"
  using assms
  by (fastforce simp: plugin_parseCip64_def Let_def ebind_eq_Inr customData_fee_def
      split: option.splits rlp.splits if_splits)

lemma plugin_fee_shape:
  assumes "plugin_parseCip64 decodeRlp keccak256 parseEipSignature raw = Inr tx"
  shows "\<exists>fs. decodeRlp (drop 1 raw) = Some (RList fs) \<and>
     ((\<exists>a. length a = 20 \<and> fs ! 9 = RBytes a \<and> customData_fee tx = JHex a) \<or>
      (fs ! 9 = RBytes [] \<and> customData_fee tx = JNull))"
proof -
  from plugin_fee_source [OF assms] obtain fs v
    where f: "decodeRlp (drop 1 raw) = Some (RList fs)"
      and h: "handleAddress (fs ! 9) = Inr v" and c: "customData_fee tx = nullable v"
    by blast
  have "(\<exists>a. length a = 20 \<and> fs ! 9 = RBytes a \<and> customData_fee tx = JHex a) \<or>
      (fs ! 9 = RBytes [] \<and> customData_fee tx = JNull)"
  proof (cases v)
    case None
    with h have "fs ! 9 = RBytes []" by (simp add: handleAddress_None)
    with c None show ?thesis by (simp add: nullable_def)
  next
    case (Some a)
    with h have "fs ! 9 = RBytes a \<and> length a = 20" by (simp add: handleAddress_Some)
    with c Some show ?thesis by (simp add: nullable_def)
  qed
  with f show ?thesis by blast
qed

text \<open>
  C7. The class of celo.ts and the class and plugin of the plugin file hold the same
  codec, up to the value that stands for an empty fee currency element. On the same
  instance the two \<open>serialize\<close> return the same result, bytes or error. On instances that
  differ only in the initial value of a fee currency that was never set (the empty string
  in one, \<open>undefined\<close> in the other), both fail and neither yields bytes. On the same raw
  payload the two \<open>parseCip64\<close> fail with the same error or both succeed, with the same
  type, chainId, nonce, fee fields, gasPrice, gasLimit, to, value, data, accessList, hash
  and signature. When the tenth element of the payload is a 20-byte address, both hold
  that address as the fee currency; when it is empty, the result of celo.ts holds
  \<open>undefined\<close> and the plugin's holds \<open>null\<close>. The collaborators are arbitrary.
\<close>

theorem variants_agree:
  "plugin_serialize encodeRlp this sg = serialize encodeRlp this sg \<and>
   map_sum (\<lambda>e. ()) id
     (plugin_serialize encodeRlp
        (this\<lparr>feeCurrency := feeCurrency plugin_new_Cip64Transaction\<rparr>) sg) =
   map_sum (\<lambda>e. ()) id
     (serialize encodeRlp (this\<lparr>feeCurrency := feeCurrency new_Cip64Transaction\<rparr>) sg) \<and>
   (\<forall>e. plugin_parseCip64 decodeRlp keccak256 parseEipSignature raw = Inl e \<longleftrightarrow>
        parseCip64 decodeRlp keccak256 parseEipSignature raw = Inl e) \<and>
   (\<forall>tx. parseCip64 decodeRlp keccak256 parseEipSignature raw = Inr tx \<longrightarrow>
      (\<exists>tx' fs.
         plugin_parseCip64 decodeRlp keccak256 parseEipSignature raw = Inr tx' \<and>
         decodeRlp (drop 1 raw) = Some (RList fs) \<and>
         ((\<exists>a. length a = 20 \<and> fs ! 9 = RBytes a \<and>
               celo_decoded tx = (decoded_values tx, JHex a) \<and>
               plugin_decoded tx' = (decoded_values tx, JHex a)) \<or>
          (fs ! 9 = RBytes [] \<and>
           celo_decoded tx = (decoded_values tx, JUndefined) \<and>
           plugin_decoded tx' = (decoded_values tx, JNull)))))"
proof -
  let ?p = "this\<lparr>feeCurrency := feeCurrency plugin_new_Cip64Transaction\<rparr>"
  let ?c = "this\<lparr>feeCurrency := feeCurrency new_Cip64Transaction\<rparr>"
  let ?P = "plugin_parseCip64 decodeRlp keccak256 parseEipSignature raw"
  let ?C = "parseCip64 decodeRlp keccak256 parseEipSignature raw"
  let ?f = "\<lambda>tx. tx\<lparr>tx_feeCurrency := orUndefined (customData_fee tx),
                        tx_customData := None\<rparr>"
  have "isl (serialize encodeRlp ?p sg)" "isl (serialize encodeRlp ?c sg)"
    by (rule serialize_unset;
        simp add: new_Cip64Transaction_def plugin_new_Cip64Transaction_def
          Transaction.extend_def)+
  then have unset: "map_sum (\<lambda>e. ()) id (plugin_serialize encodeRlp ?p sg) =
      map_sum (\<lambda>e. ()) id (serialize encodeRlp ?c sg)"
    by (cases "serialize encodeRlp ?p sg"; cases "serialize encodeRlp ?c sg")
       (simp_all add: plugin_serialize_eq)
  have rel: "map_sum id ?f ?P = ?C"
    by (rule parse_variants_related)
  have err: "?P = Inl e \<longleftrightarrow> ?C = Inl e" for e
    using rel by (cases ?P) auto
  have ok: "\<exists>tx' fs. ?P = Inr tx' \<and> decodeRlp (drop 1 raw) = Some (RList fs) \<and>
         ((\<exists>a. length a = 20 \<and> fs ! 9 = RBytes a \<and>
               celo_decoded tx = (decoded_values tx, JHex a) \<and>
               plugin_decoded tx' = (decoded_values tx, JHex a)) \<or>
          (fs ! 9 = RBytes [] \<and>
           celo_decoded tx = (decoded_values tx, JUndefined) \<and>
           plugin_decoded tx' = (decoded_values tx, JNull)))"
    if c: "?C = Inr tx" for tx
  proof -
    from rel c obtain tx' where p: "?P = Inr tx'" and t: "tx = ?f tx'"
      by (cases ?P) auto
    have d: "decoded_values tx' = decoded_values tx"
      by (simp add: t decoded_values_def)
    from plugin_fee_shape [OF p] obtain fs
      where f: "decodeRlp (drop 1 raw) = Some (RList fs)"
        and s: "(\<exists>a. length a = 20 \<and> fs ! 9 = RBytes a \<and> customData_fee tx' = JHex a) \<or>
                (fs ! 9 = RBytes [] \<and> customData_fee tx' = JNull)"
      by blast
    from s have "(\<exists>a. length a = 20 \<and> fs ! 9 = RBytes a \<and>
               celo_decoded tx = (decoded_values tx, JHex a) \<and>
               plugin_decoded tx' = (decoded_values tx, JHex a)) \<or>
          (fs ! 9 = RBytes [] \<and>
           celo_decoded tx = (decoded_values tx, JUndefined) \<and>
           plugin_decoded tx' = (decoded_values tx, JNull))"
    proof
      assume "\<exists>a. length a = 20 \<and> fs ! 9 = RBytes a \<and> customData_fee tx' = JHex a"
      then obtain a where a: "length a = 20" "fs ! 9 = RBytes a"
          "customData_fee tx' = JHex a"
        by blast
      then have "tx_feeCurrency tx = JHex a"
        by (simp add: t orUndefined_def)
      with a d show ?thesis
        by (auto simp: celo_decoded_def plugin_decoded_def)
    next
      assume n: "fs ! 9 = RBytes [] \<and> customData_fee tx' = JNull"
      then have "tx_feeCurrency tx = JUndefined"
        by (simp add: t orUndefined_def)
      with n d show ?thesis
        by (simp add: celo_decoded_def plugin_decoded_def)
    qed
    with p f show ?thesis by blast
  qed
  from unset err ok show ?thesis
    by (simp only: plugin_serialize_eq) blast
qed


section \<open>Field decoders invert the field encoders\<close>

lemma fromBe_snoc: "fromBe (bs @ [b]) = fromBe bs * 256 + unat b"
  by (simp add: fromBe_def)

lemma fromBe_toBeArray: "fromBe (toBeArray n) = n"
proof (induction n rule: toBeArray.induct)
  case (1 n)
  show ?case
  proof (cases "n = 0")
    case True
    then show ?thesis by (simp add: fromBe_def)
  next
    case False
    have "unat (of_nat (n mod 256) :: byte) = n mod 256"
      by (simp add: unat_of_nat)
    with False 1 show ?thesis
      by (subst toBeArray.simps) (simp add: fromBe_snoc)
  qed
qed

lemma handleNumber_format:
  "n \<le> MAX_SAFE_INTEGER \<Longrightarrow> handleNumber (RBytes (toBeArray n)) p = Inr n"
  by (simp add: fromBe_toBeArray)

lemma handleAddress_address: "length a = 20 \<Longrightarrow> handleAddress (RBytes a) = Inr (Some a)"
  by auto

lemma mapM_storageKey:
  "list_all (\<lambda>k. length k = 32) ks \<Longrightarrow> mapM (storageKey p) (map RBytes ks) = Inr ks"
  by (induction ks) simp_all

lemma handleAccessList_format:
  "valid_accessList al \<Longrightarrow> handleAccessList (formatAccessList al) p = Inr al"
  unfolding formatAccessList_def valid_accessList_def
  by (induction al) (auto simp: mapM_storageKey)

section \<open>Parsing\<close>

text \<open>
  What \<open>parseCip64\<close> returns on a payload whose decoded list has 10 or 13 elements that
  all decode.
\<close>

lemma parseCip64_run:
  assumes "decodeRlp (drop 1 raw) = Some (RList fs)" and "length fs = 10 \<or> length fs = 13"
    and "handleUint (fs ! 2) ''maxPriorityFeePerGas'' = Inr v2"
    and "handleUint (fs ! 3) ''maxFeePerGas'' = Inr v3"
    and "handleUint (fs ! 0) ''chainId'' = Inr v0"
    and "handleNumber (fs ! 1) ''nonce'' = Inr v1"
    and "handleUint (fs ! 4) ''gasLimit'' = Inr v4"
    and "handleAddress (fs ! 5) = Inr v5"
    and "handleUint (fs ! 6) ''value'' = Inr v6"
    and "hexlify (fs ! 7) = Inr v7"
    and "handleAccessList (fs ! 8) ''accessList'' = Inr v8"
    and "handleAddress (fs ! 9) = Inr v9"
  shows "parseCip64 decodeRlp keccak256 parseEipSignature raw =
     (if length fs = 10 then
        Inr \<lparr>tx_type = Some CIP_64_TYPE_NUMBER, tx_chainId = Some v0, tx_nonce = Some v1,
             tx_maxPriorityFeePerGas = Some v2, tx_maxFeePerGas = Some v3, tx_gasPrice = None,
             tx_gasLimit = Some v4, tx_to = v5, tx_value = Some v6, tx_data = Some v7,
             tx_accessList = Some v8, tx_hash = None, tx_signature = None,
             tx_feeCurrency = orUndefined (nullable v9), tx_customData = None\<rparr>
      else
        (case parseEipSignature (drop 10 fs) of
           None \<Rightarrow> Inl SIGNATURE_FAILURE
         | Some sg \<Rightarrow>
             Inr \<lparr>tx_type = Some CIP_64_TYPE_NUMBER, tx_chainId = Some v0, tx_nonce = Some v1,
                  tx_maxPriorityFeePerGas = Some v2, tx_maxFeePerGas = Some v3,
                  tx_gasPrice = None, tx_gasLimit = Some v4, tx_to = v5, tx_value = Some v6,
                  tx_data = Some v7, tx_accessList = Some v8, tx_hash = Some (keccak256 raw),
                  tx_signature = Some sg, tx_feeCurrency = orUndefined (nullable v9),
                  tx_customData = None\<rparr>))"
  using assms by (auto simp: parseCip64_def Let_def split: option.splits)

text \<open>The same for the plugin, which puts the fee currency into \<open>customData\<close>.\<close>

lemma plugin_parseCip64_run:
  assumes "decodeRlp (drop 1 raw) = Some (RList fs)" and "length fs = 10 \<or> length fs = 13"
    and "handleUint (fs ! 2) ''maxPriorityFeePerGas'' = Inr v2"
    and "handleUint (fs ! 3) ''maxFeePerGas'' = Inr v3"
    and "handleUint (fs ! 0) ''chainId'' = Inr v0"
    and "handleNumber (fs ! 1) ''nonce'' = Inr v1"
    and "handleUint (fs ! 4) ''gasLimit'' = Inr v4"
    and "handleAddress (fs ! 5) = Inr v5"
    and "handleUint (fs ! 6) ''value'' = Inr v6"
    and "hexlify (fs ! 7) = Inr v7"
    and "handleAccessList (fs ! 8) ''accessList'' = Inr v8"
    and "handleAddress (fs ! 9) = Inr v9"
  shows "plugin_parseCip64 decodeRlp keccak256 parseEipSignature raw =
     (if length fs = 10 then
        Inr \<lparr>tx_type = Some CIP_64_TYPE_NUMBER, tx_chainId = Some v0, tx_nonce = Some v1,
             tx_maxPriorityFeePerGas = Some v2, tx_maxFeePerGas = Some v3, tx_gasPrice = None,
             tx_gasLimit = Some v4, tx_to = v5, tx_value = Some v6, tx_data = Some v7,
             tx_accessList = Some v8, tx_hash = None, tx_signature = None,
             tx_feeCurrency = JUndefined,
             tx_customData = Some \<lparr>customData_feeCurrency = nullable v9\<rparr>\<rparr>
      else
        (case parseEipSignature (drop 10 fs) of
           None \<Rightarrow> Inl SIGNATURE_FAILURE
         | Some sg \<Rightarrow>
             Inr \<lparr>tx_type = Some CIP_64_TYPE_NUMBER, tx_chainId = Some v0, tx_nonce = Some v1,
                  tx_maxPriorityFeePerGas = Some v2, tx_maxFeePerGas = Some v3,
                  tx_gasPrice = None, tx_gasLimit = Some v4, tx_to = v5, tx_value = Some v6,
                  tx_data = Some v7, tx_accessList = Some v8, tx_hash = Some (keccak256 raw),
                  tx_signature = Some sg, tx_feeCurrency = JUndefined,
                  tx_customData = Some \<lparr>customData_feeCurrency = nullable v9\<rparr>\<rparr>))"
  using assms by (auto simp: plugin_parseCip64_def Let_def split: option.splits)

text \<open>
  C2. For a valid field set \<open>F\<close> whose fee currency is a 20-byte address, parsing the
  unsigned serialization of \<open>F\<close> returns exactly the field set \<open>F\<close>: the same chainId,
  nonce, maxPriorityFeePerGas, maxFeePerGas, gasLimit, to, value, data, accessList and
  feeCurrency, no hash, no signature. The list codec is arbitrary, provided it decodes the
  encoded field list of \<open>F\<close> back; the digest and the signature routine are arbitrary.
\<close>

theorem unsigned_roundtrip:
  assumes "valid_fields F" and "feeCurrency F = JHex fc"
    and "decodeRlp (encodeRlp (RList (spec_field_list F fc))) = Some (RList (spec_field_list F fc))"
  shows "ebind (unsignedSerialized encodeRlp F) (parseCip64 decodeRlp keccak256 parseEipSignature)
     = Inr (field_set F)"
proof -
  from assms(1,2) have fc: "length fc = 20" and ok: "to_ok F"
    by (simp_all add: valid_fields_def)
  from fc have ne: "fc \<noteq> []" by auto
  let ?raw = "0x7b # encodeRlp (RList (spec_field_list F fc))"
  have ser: "unsignedSerialized encodeRlp F = Inr ?raw"
    using serialize_ok [OF assms(2) fc ok, of encodeRlp None]
    by (simp add: unsignedSerialized_def)
  obtain c n p m g v d al where F:
    "chainId F = Some c" "nonce F = Some n" "n \<le> MAX_SAFE_INTEGER"
    "maxPriorityFeePerGas F = Some p" "maxFeePerGas F = Some m" "gasLimit F = Some g"
    "val F = Some v" "data F = Some d" "accessList F = Some al" "valid_accessList al"
    using assms(1) by (auto simp: valid_fields_def split: option.splits)
  have to5: "handleAddress (spec_field_list F fc ! 5) = Inr (to F)"
    using ok by (cases "to F") (auto simp: spec_field_list_def to_ok_def)
  have al8: "spec_field_list F fc ! 8 = formatAccessList al"
    by (simp add: spec_field_list_def F formatAccessList_def)
  have "parseCip64 decodeRlp keccak256 parseEipSignature ?raw = Inr (field_set F)"
    by (subst parseCip64_run [where fs = "spec_field_list F fc" and ?v0.0 = c and ?v1.0 = n
          and ?v2.0 = p and ?v3.0 = m and ?v4.0 = g and ?v5.0 = "to F" and ?v6.0 = v
          and ?v7.0 = d and ?v8.0 = al and ?v9.0 = "Some fc"])
       (simp_all add: assms(3) to5 al8 handleAccessList_format F handleNumber_format
          handleAddress_address fc,
        simp_all add: spec_field_list_def F fromBe_toBeArray fc ne field_set_def assms(2)
          orUndefined_def nullable_def)
  with ser show ?thesis by simp
qed

text \<open>The reference codec on the example payloads.\<close>

lemma ex_tx2_encoded: "0x7b # rlp_encode (RList (spec_field_list ex_tx2 ex_address)) = ex_raw2"
  by (simp add: spec_field_list_def ex_tx2_def ex_address_def ex_recipient_def ex_key_def
      rlp_prefix_def ex_raw2_def numeral_2_eq_2 [symmetric])

lemma ex_raw2_decoded:
  "rlp_decode (drop 1 ex_raw2) = Some (RList (spec_field_list ex_tx2 ex_address))"
  by (simp add: spec_field_list_def ex_tx2_def ex_address_def ex_recipient_def ex_key_def
      ex_raw2_def rlp_decode_def rlp_decode_item.simps rlp_decode_items.simps rlp_header_def
      split_at_def fromBe_def)

lemma ex_raw_unsigned_decoded:
  "rlp_decode (drop 1 ex_raw_unsigned) = Some (RList (ex_fields @ [RBytes ex_address]))"
  by (simp add: ex_fields_def ex_address_def ex_raw_unsigned_def rlp_decode_def
      rlp_decode_item.simps rlp_decode_items.simps rlp_header_def split_at_def fromBe_def)

lemma ex_raw_signed_decoded:
  "rlp_decode (drop 1 ex_raw_signed) =
     Some (RList (ex_fields @ [RBytes ex_address, RBytes [1], RBytes [1, 2], RBytes [3]]))"
  by (simp add: ex_fields_def ex_address_def ex_raw_signed_def rlp_decode_def
      rlp_decode_item.simps rlp_decode_items.simps rlp_header_def split_at_def fromBe_def)

lemma ex_raw_nine_decoded: "rlp_decode (drop 1 ex_raw_nine) = Some (RList ex_fields)"
  by (simp add: ex_fields_def ex_raw_nine_def rlp_decode_def
      rlp_decode_item.simps rlp_decode_items.simps rlp_header_def split_at_def fromBe_def)

lemma ex_raw_no_fee_decoded:
  "rlp_decode (drop 1 ex_raw_no_fee) = Some (RList (ex_fields @ [RBytes []]))"
  by (simp add: ex_fields_def ex_raw_no_fee_def rlp_decode_def
      rlp_decode_item.simps rlp_decode_items.simps rlp_header_def split_at_def fromBe_def)

text \<open>
  The transfer \<open>ex_tx2\<close> under the reference codec: its 127 bytes parse back to its
  field set.
\<close>

theorem unsigned_roundtrip_witness:
  "valid_fields ex_tx2 \<and> feeCurrency ex_tx2 = JHex ex_address \<and>
   rlp_decode (rlp_encode (RList (spec_field_list ex_tx2 ex_address))) =
     Some (RList (spec_field_list ex_tx2 ex_address)) \<and>
   unsignedSerialized rlp_encode ex_tx2 = Inr ex_raw2 \<and>
   parseCip64 rlp_decode stand_in_digest ref_parseEipSignature ex_raw2 = Inr (field_set ex_tx2)"
proof -
  have v: "valid_fields ex_tx2"
    by (simp add: valid_fields_def ex_tx2_def to_ok_def valid_accessList_def ex_recipient_def
        ex_key_def ex_address_def MAX_SAFE_INTEGER_def)
  have f: "feeCurrency ex_tx2 = JHex ex_address" by (simp add: ex_tx2_def)
  have e: "rlp_encode (RList (spec_field_list ex_tx2 ex_address)) = drop 1 ex_raw2"
    by (simp add: ex_tx2_encoded [symmetric])
  have d: "rlp_decode (rlp_encode (RList (spec_field_list ex_tx2 ex_address))) =
      Some (RList (spec_field_list ex_tx2 ex_address))"
    by (simp only: e ex_raw2_decoded)
  have a: "length ex_address = 20" "to_ok ex_tx2"
    using v f by (simp_all add: valid_fields_def)
  have s: "unsignedSerialized rlp_encode ex_tx2 = Inr ex_raw2"
    unfolding unsignedSerialized_def
    using serialize_ok [OF f a, of rlp_encode None]
    by (simp only: option.case append_Nil2 ex_tx2_encoded)
  from unsigned_roundtrip [where F = ex_tx2 and fc = ex_address and encodeRlp = rlp_encode
      and decodeRlp = rlp_decode and ?keccak256.0 = stand_in_digest
      and parseEipSignature = ref_parseEipSignature, OF v f d]
  have "parseCip64 rlp_decode stand_in_digest ref_parseEipSignature ex_raw2 =
      Inr (field_set ex_tx2)"
    by (simp add: s)
  with v f d s show ?thesis by simp
qed


lemma drop10:
  "length fs = 13 \<Longrightarrow> drop 10 fs = [fs ! 10, fs ! 11, fs ! 12]"
proof -
  assume l: "length fs = 13"
  have "drop 10 fs = fs ! 10 # drop 11 fs"
    using Cons_nth_drop_Suc [of 10 fs] l by simp
  moreover have "drop 11 fs = fs ! 11 # drop 12 fs"
    using Cons_nth_drop_Suc [of 11 fs] l by simp
  moreover have "drop 12 fs = fs ! 12 # drop 13 fs"
    using Cons_nth_drop_Suc [of 12 fs] l by simp
  ultimately show ?thesis using l by simp
qed

text \<open>The hash and the signature of a result, by the number of elements.\<close>

lemma parseCip64_Inr_hash:
  assumes "decodeRlp (drop 1 raw) = Some (RList fs)"
    and "parseCip64 decodeRlp keccak256 parseEipSignature raw = Inr tx"
  shows "(length fs = 10 \<longrightarrow> tx_hash tx = None \<and> tx_signature tx = None) \<and>
         (length fs = 13 \<longrightarrow> tx_hash tx = Some (keccak256 raw) \<and>
            (\<exists>sg. parseEipSignature (drop 10 fs) = Some sg \<and> tx_signature tx = Some sg))"
  using assms
  by (auto simp: parseCip64_def Let_def ebind_eq_Inr split: if_splits option.splits)

text \<open>
  C3. When the decoded list of a raw payload has exactly 13 elements, a result of
  \<open>parseCip64\<close> carries as hash the digest of the whole raw byte sequence, type tag
  included, and as signature what the shared signature routine returns on the elements
  10, 11 and 12; when that routine fails, the parse fails. When the list has exactly 10
  elements, a result carries no hash and no signature. The decoder, the digest and the
  signature routine are arbitrary.
\<close>

theorem signed_payload_hash_and_signature:
  assumes "decodeRlp (drop 1 raw) = Some (RList fs)"
  shows "(length fs = 13 \<longrightarrow>
           (\<forall>tx. parseCip64 decodeRlp keccak256 parseEipSignature raw = Inr tx \<longrightarrow>
              tx_hash tx = Some (keccak256 raw) \<and>
              (\<exists>sg. parseEipSignature [fs ! 10, fs ! 11, fs ! 12] = Some sg \<and>
                    tx_signature tx = Some sg))) \<and>
         (length fs = 13 \<longrightarrow> parseEipSignature [fs ! 10, fs ! 11, fs ! 12] = None \<longrightarrow>
            isl (parseCip64 decodeRlp keccak256 parseEipSignature raw)) \<and>
         (length fs = 10 \<longrightarrow>
           (\<forall>tx. parseCip64 decodeRlp keccak256 parseEipSignature raw = Inr tx \<longrightarrow>
              tx_hash tx = None \<and> tx_signature tx = None))"
proof -
  note H = parseCip64_Inr_hash [where decodeRlp = decodeRlp and raw = raw and fs = fs
      and ?keccak256.0 = keccak256 and parseEipSignature = parseEipSignature, OF assms]
  have A: "tx_hash tx = Some (keccak256 raw) \<and>
           (\<exists>sg. parseEipSignature [fs ! 10, fs ! 11, fs ! 12] = Some sg \<and>
                 tx_signature tx = Some sg)"
    if "length fs = 13" "parseCip64 decodeRlp keccak256 parseEipSignature raw = Inr tx" for tx
    using H [OF that(2)] that(1) by (simp add: drop10)
  have B: "isl (parseCip64 decodeRlp keccak256 parseEipSignature raw)"
    if l: "length fs = 13" and n: "parseEipSignature [fs ! 10, fs ! 11, fs ! 12] = None"
  proof (cases "parseCip64 decodeRlp keccak256 parseEipSignature raw")
    case (Inl e)
    then show ?thesis by simp
  next
    case (Inr tx)
    with H [OF Inr] l n show ?thesis by (simp add: drop10)
  qed
  have C: "tx_hash tx = None \<and> tx_signature tx = None"
    if "length fs = 10" "parseCip64 decodeRlp keccak256 parseEipSignature raw = Inr tx" for tx
    using H [OF that(2)] that(1) by simp
  from A B C show ?thesis by blast
qed

text \<open>
  The signed example payload parses to the example field set with the digest of its
  bytes and the example signature; the unsigned one to the field set alone.
\<close>

theorem signed_payload_hash_and_signature_witness:
  "rlp_decode (drop 1 ex_raw_signed) =
     Some (RList (ex_fields @ [RBytes ex_address, RBytes [1], RBytes [1, 2], RBytes [3]])) \<and>
   length (ex_fields @ [RBytes ex_address, RBytes [1], RBytes [1, 2], RBytes [3]]) = 13 \<and>
   parseCip64 rlp_decode stand_in_digest ref_parseEipSignature ex_raw_signed =
     Inr ((field_set ex_tx)\<lparr>tx_hash := Some (stand_in_digest ex_raw_signed),
                              tx_signature := Some ex_signature\<rparr>) \<and>
   ref_parseEipSignature [RBytes [1], RBytes [1, 2], RBytes [3]] = Some ex_signature \<and>
   rlp_decode (drop 1 ex_raw_unsigned) = Some (RList (ex_fields @ [RBytes ex_address])) \<and>
   length (ex_fields @ [RBytes ex_address]) = 10 \<and>
   parseCip64 rlp_decode stand_in_digest ref_parseEipSignature ex_raw_unsigned =
     Inr (field_set ex_tx)"
proof -
  have s: "ref_parseEipSignature [RBytes [1], RBytes [1, 2], RBytes [3]] = Some ex_signature"
    by (simp add: ref_parseEipSignature_def ex_signature_def fromBe_def)
  have l13: "length (ex_fields @ [RBytes ex_address, RBytes [1], RBytes [1, 2], RBytes [3]]) = 13"
    and l10: "length (ex_fields @ [RBytes ex_address]) = 10"
    by (simp_all add: ex_fields_def)
  have p13: "parseCip64 rlp_decode stand_in_digest ref_parseEipSignature ex_raw_signed =
     Inr ((field_set ex_tx)\<lparr>tx_hash := Some (stand_in_digest ex_raw_signed),
                              tx_signature := Some ex_signature\<rparr>)"
    by (simp add: parseCip64_def ex_raw_signed_decoded [unfolded One_nat_def] ex_fields_def s
        field_set_def ex_tx_def fromBe_def MAX_SAFE_INTEGER_def ex_address_def orUndefined_def
        nullable_def)
  have p10: "parseCip64 rlp_decode stand_in_digest ref_parseEipSignature ex_raw_unsigned =
     Inr (field_set ex_tx)"
    by (simp add: parseCip64_def ex_raw_unsigned_decoded [unfolded One_nat_def] ex_fields_def
        field_set_def ex_tx_def fromBe_def MAX_SAFE_INTEGER_def ex_address_def orUndefined_def
        nullable_def)
  note T13 = signed_payload_hash_and_signature [where decodeRlp = rlp_decode
      and raw = ex_raw_signed and ?keccak256.0 = stand_in_digest
      and parseEipSignature = ref_parseEipSignature, OF ex_raw_signed_decoded]
  from T13 l13 p13
  have h: "tx_hash ((field_set ex_tx)\<lparr>tx_hash := Some (stand_in_digest ex_raw_signed),
                              tx_signature := Some ex_signature\<rparr>) =
           Some (stand_in_digest ex_raw_signed)"
    by blast
  from h ex_raw_signed_decoded l13 p13 s ex_raw_unsigned_decoded l10 p10
  show ?thesis by blast
qed

text \<open>A payload whose elements all decode parses.\<close>

lemma not_isl_Inr: "\<not> isl m \<Longrightarrow> \<exists>x. m = Inr x"
  by (cases m) simp_all

lemma parseCip64_succeeds:
  assumes "decodeRlp (drop 1 raw) = Some (RList fs)" and "length fs = 10 \<or> length fs = 13"
    and "other_fields_decode fs" and "handleAddress (fs ! 9) = Inr v9"
    and "length fs = 13 \<longrightarrow> parseEipSignature (drop 10 fs) \<noteq> None"
  shows "\<exists>tx. parseCip64 decodeRlp keccak256 parseEipSignature raw = Inr tx \<and>
           tx_feeCurrency tx = orUndefined (nullable v9)"
proof -
  from assms(3) obtain v0 v1 v2 v3 v4 v5 v6 v7 v8 where v:
    "handleUint (fs ! 2) ''maxPriorityFeePerGas'' = Inr v2"
    "handleUint (fs ! 3) ''maxFeePerGas'' = Inr v3"
    "handleUint (fs ! 0) ''chainId'' = Inr v0"
    "handleNumber (fs ! 1) ''nonce'' = Inr v1"
    "handleUint (fs ! 4) ''gasLimit'' = Inr v4"
    "handleAddress (fs ! 5) = Inr v5"
    "handleUint (fs ! 6) ''value'' = Inr v6"
    "hexlify (fs ! 7) = Inr v7"
    "handleAccessList (fs ! 8) ''accessList'' = Inr v8"
    unfolding other_fields_decode_def by (metis not_isl_Inr)
  show ?thesis
    using assms(2,5)
    by (subst parseCip64_run [where decodeRlp = decodeRlp and raw = raw and fs = fs,
          OF assms(1,2) v assms(4)])+
       (auto split: option.splits)
qed

lemma plugin_parseCip64_succeeds:
  assumes "decodeRlp (drop 1 raw) = Some (RList fs)" and "length fs = 10 \<or> length fs = 13"
    and "other_fields_decode fs" and "handleAddress (fs ! 9) = Inr v9"
    and "length fs = 13 \<longrightarrow> parseEipSignature (drop 10 fs) \<noteq> None"
  shows "\<exists>tx. plugin_parseCip64 decodeRlp keccak256 parseEipSignature raw = Inr tx \<and>
           tx_customData tx = Some \<lparr>customData_feeCurrency = nullable v9\<rparr>"
proof -
  from assms(3) obtain v0 v1 v2 v3 v4 v5 v6 v7 v8 where v:
    "handleUint (fs ! 2) ''maxPriorityFeePerGas'' = Inr v2"
    "handleUint (fs ! 3) ''maxFeePerGas'' = Inr v3"
    "handleUint (fs ! 0) ''chainId'' = Inr v0"
    "handleNumber (fs ! 1) ''nonce'' = Inr v1"
    "handleUint (fs ! 4) ''gasLimit'' = Inr v4"
    "handleAddress (fs ! 5) = Inr v5"
    "handleUint (fs ! 6) ''value'' = Inr v6"
    "hexlify (fs ! 7) = Inr v7"
    "handleAccessList (fs ! 8) ''accessList'' = Inr v8"
    unfolding other_fields_decode_def by (metis not_isl_Inr)
  show ?thesis
    using assms(2,5)
    by (subst plugin_parseCip64_run [where decodeRlp = decodeRlp and raw = raw and fs = fs,
          OF assms(1,2) v assms(4)])+
       (auto split: option.splits)
qed

text \<open>No field decoder raises an error with the message of the count check.\<close>

lemma handleUint_message:
  "handleUint x p = Inl e \<Longrightarrow> error_message e = ''invalid BigNumberish value''"
  by (cases x) auto

lemma handleNumber_message:
  "handleNumber x p = Inl e \<Longrightarrow>
   error_message e = ''overflow'' \<or> error_message e = ''invalid numeric value''"
  by (cases x) (auto split: if_splits)

lemma handleAddress_message:
  "handleAddress x = Inl e \<Longrightarrow> error_message e = ''invalid address''"
  by (cases x) (auto simp: ebind_eq_Inl split: if_splits dest: getAddress_Inl)

lemma hexlify_message:
  "hexlify x = Inl e \<Longrightarrow> error_message e = ''invalid BytesLike value''"
  by (cases x) auto

lemma mapM_Inl: "mapM f xs = Inl e \<Longrightarrow> \<exists>x \<in> set xs. f x = Inl e"
  by (induction xs) (auto simp: ebind_eq_Inl)

lemma storageKey_message: "storageKey p x = Inl e \<Longrightarrow> error_message e = ''invalid slot''"
  by (cases x) (auto split: if_splits)

lemma accessSet_message:
  "accessSet p x = Inl e \<Longrightarrow>
   error_message e \<in> {''invalid slot'', ''invalid address'', ''invalid slot set''}"
  by (induction p x rule: accessSet.induct)
     (auto simp: ebind_eq_Inl split: if_splits dest!: mapM_Inl storageKey_message)

lemma handleAccessList_message:
  "handleAccessList x p = Inl e \<Longrightarrow>
   error_message e \<in>
     {''invalid slot'', ''invalid address'', ''invalid slot set'', ''invalid access list''}"
  by (cases x) (auto dest!: mapM_Inl accessSet_message)

lemma parseCip64_field_error:
  assumes "decodeRlp (drop 1 raw) = Some (RList fs)" and "length fs = 10 \<or> length fs = 13"
    and "parseCip64 decodeRlp keccak256 parseEipSignature raw = Inl e"
  shows "error_message e \<noteq> ''invalid field count for transaction type: CIP_64_TYPE_NUMBER''"
  using assms
  by (auto simp: parseCip64_def Let_def ebind_eq_Inl split: if_splits option.splits
      dest!: handleUint_message handleNumber_message handleAddress_message hexlify_message
        handleAccessList_message)

lemma plugin_parse_error_same:
  "plugin_parseCip64 decodeRlp keccak256 parseEipSignature raw = Inl e \<longleftrightarrow>
   parseCip64 decodeRlp keccak256 parseEipSignature raw = Inl e"
  using parse_variants_related [of decodeRlp keccak256 parseEipSignature raw]
  by (cases "plugin_parseCip64 decodeRlp keccak256 parseEipSignature raw") auto

lemma parseCip64_bad_count:
  "decodeRlp (drop 1 raw) = Some item \<Longrightarrow> bad_field_count item \<Longrightarrow>
   parseCip64 decodeRlp keccak256 parseEipSignature raw =
     Inl (INVALID_ARGUMENT ''invalid field count for transaction type: CIP_64_TYPE_NUMBER''
            ''data'' (VBytes raw))"
  by (cases item) (simp_all add: parseCip64_def bad_field_count_def field_count_error_def)

lemma parseCip64_count_error:
  "(\<exists>name v. parseCip64 decodeRlp keccak256 parseEipSignature raw =
       Inl (INVALID_ARGUMENT ''invalid field count for transaction type: CIP_64_TYPE_NUMBER''
              name v)) \<longleftrightarrow>
   (\<exists>item. decodeRlp (drop 1 raw) = Some item \<and> bad_field_count item)"
proof
  assume "\<exists>name v. parseCip64 decodeRlp keccak256 parseEipSignature raw =
       Inl (INVALID_ARGUMENT ''invalid field count for transaction type: CIP_64_TYPE_NUMBER''
              name v)"
  then obtain name v where e: "parseCip64 decodeRlp keccak256 parseEipSignature raw =
       Inl (INVALID_ARGUMENT ''invalid field count for transaction type: CIP_64_TYPE_NUMBER''
              name v)"
    by blast
  show "\<exists>item. decodeRlp (drop 1 raw) = Some item \<and> bad_field_count item"
  proof (cases "decodeRlp (drop 1 raw)")
    case None
    with e show ?thesis by (simp add: parseCip64_def)
  next
    case (Some item)
    show ?thesis
    proof (cases item)
      case (RBytes bs)
      with Some show ?thesis by (simp add: bad_field_count_def)
    next
      case (RList fs)
      show ?thesis
      proof (cases "length fs = 10 \<or> length fs = 13")
        case True
        from parseCip64_field_error [where decodeRlp = decodeRlp and raw = raw and fs = fs,
            OF _ True e] Some RList
        show ?thesis by simp
      next
        case False
        with Some RList show ?thesis by (simp add: bad_field_count_def)
      qed
    qed
  qed
next
  assume "\<exists>item. decodeRlp (drop 1 raw) = Some item \<and> bad_field_count item"
  then show "\<exists>name v. parseCip64 decodeRlp keccak256 parseEipSignature raw =
       Inl (INVALID_ARGUMENT ''invalid field count for transaction type: CIP_64_TYPE_NUMBER''
              name v)"
    using parseCip64_bad_count [where decodeRlp = decodeRlp and raw = raw] by blast
qed

text \<open>
  C4. \<open>parseCip64\<close>, in celo.ts and in the plugin, fails with an argument error
  carrying the message "invalid field count ..." if and only if the list decoder returns
  something that is not a list of exactly 10 or exactly 13 elements; the error then names
  the argument \<open>data\<close> and carries the original raw bytes. So a list of 9, 11 or 14
  elements is rejected with this error, and a list of 10 or 13 elements never is.
\<close>

theorem field_count_rejection:
  "((\<exists>name v. parseCip64 decodeRlp keccak256 parseEipSignature raw =
        Inl (INVALID_ARGUMENT ''invalid field count for transaction type: CIP_64_TYPE_NUMBER''
               name v)) \<longleftrightarrow>
    (\<exists>item. decodeRlp (drop 1 raw) = Some item \<and> bad_field_count item)) \<and>
   ((\<exists>name v. plugin_parseCip64 decodeRlp keccak256 parseEipSignature raw =
        Inl (INVALID_ARGUMENT ''invalid field count for transaction type: CIP_64_TYPE_NUMBER''
               name v)) \<longleftrightarrow>
    (\<exists>item. decodeRlp (drop 1 raw) = Some item \<and> bad_field_count item)) \<and>
   ((\<exists>item. decodeRlp (drop 1 raw) = Some item \<and> bad_field_count item) \<longrightarrow>
      parseCip64 decodeRlp keccak256 parseEipSignature raw =
        Inl (INVALID_ARGUMENT ''invalid field count for transaction type: CIP_64_TYPE_NUMBER''
               ''data'' (VBytes raw)) \<and>
      plugin_parseCip64 decodeRlp keccak256 parseEipSignature raw =
        Inl (INVALID_ARGUMENT ''invalid field count for transaction type: CIP_64_TYPE_NUMBER''
               ''data'' (VBytes raw))) \<and>
   (decodeRlp (drop 1 raw) = Some (RList fs) \<and>
    (length fs = 9 \<or> length fs = 11 \<or> length fs = 14) \<longrightarrow>
      parseCip64 decodeRlp keccak256 parseEipSignature raw =
        Inl (INVALID_ARGUMENT ''invalid field count for transaction type: CIP_64_TYPE_NUMBER''
               ''data'' (VBytes raw))) \<and>
   (decodeRlp (drop 1 raw) = Some (RList fs) \<and> (length fs = 10 \<or> length fs = 13) \<longrightarrow>
      (\<forall>name v. parseCip64 decodeRlp keccak256 parseEipSignature raw \<noteq>
         Inl (INVALID_ARGUMENT ''invalid field count for transaction type: CIP_64_TYPE_NUMBER''
                name v)))"
  (is "(?E \<longleftrightarrow> ?B) \<and> (?PE \<longleftrightarrow> ?B) \<and> (?B \<longrightarrow> ?X \<and> ?PX) \<and> (?N \<longrightarrow> ?X) \<and> (?G \<longrightarrow> ?NE)")
proof -
  have 0: "?E \<longleftrightarrow> ?B"
    by (rule parseCip64_count_error)
  have 1: "?PE \<longleftrightarrow> ?B"
    by (simp only: plugin_parse_error_same parseCip64_count_error)
  have 2: "?X" if "?B"
    using that parseCip64_bad_count [where decodeRlp = decodeRlp and raw = raw] by blast
  have 3: "?PX" if "?B"
    using 2 [OF that] by (simp only: plugin_parse_error_same)
  have 4: "?X" if "?N"
  proof -
    from that have "bad_field_count (RList fs)" by (auto simp: bad_field_count_def)
    with that show ?thesis
      using parseCip64_bad_count [where decodeRlp = decodeRlp and raw = raw and item = "RList fs"]
      by blast
  qed
  have 5: "?NE" if "?G"
  proof -
    from that have "\<not> ?B" by (auto simp: bad_field_count_def)
    with 0 show ?thesis by blast
  qed
  from 0 1 2 3 4 5 show ?thesis by blast
qed

text \<open>
  The nine-element payload is rejected with the raw bytes in the error, by both variants;
  the ten-element example payload parses.
\<close>

theorem field_count_rejection_witness:
  "rlp_decode (drop 1 ex_raw_nine) = Some (RList ex_fields) \<and> length ex_fields = 9 \<and>
   parseCip64 rlp_decode stand_in_digest ref_parseEipSignature ex_raw_nine =
     Inl (INVALID_ARGUMENT ''invalid field count for transaction type: CIP_64_TYPE_NUMBER''
            ''data'' (VBytes ex_raw_nine)) \<and>
   plugin_parseCip64 rlp_decode stand_in_digest ref_parseEipSignature ex_raw_nine =
     Inl (INVALID_ARGUMENT ''invalid field count for transaction type: CIP_64_TYPE_NUMBER''
            ''data'' (VBytes ex_raw_nine)) \<and>
   rlp_decode (drop 1 ex_raw_unsigned) = Some (RList (ex_fields @ [RBytes ex_address])) \<and>
   length (ex_fields @ [RBytes ex_address]) = 10 \<and>
   parseCip64 rlp_decode stand_in_digest ref_parseEipSignature ex_raw_unsigned =
     Inr (field_set ex_tx)"
proof -
  have l9: "length ex_fields = 9" and l10: "length (ex_fields @ [RBytes ex_address]) = 10"
    by (simp_all add: ex_fields_def)
  then have "bad_field_count (RList ex_fields)"
    by (simp add: bad_field_count_def)
  with ex_raw_nine_decoded
  have b: "\<exists>item. rlp_decode (drop 1 ex_raw_nine) = Some item \<and> bad_field_count item"
    by blast
  have p10: "parseCip64 rlp_decode stand_in_digest ref_parseEipSignature ex_raw_unsigned =
     Inr (field_set ex_tx)"
    by (simp add: parseCip64_def ex_raw_unsigned_decoded [unfolded One_nat_def] ex_fields_def
        field_set_def ex_tx_def fromBe_def MAX_SAFE_INTEGER_def ex_address_def orUndefined_def
        nullable_def)
  note T = field_count_rejection [where decodeRlp = rlp_decode and raw = ex_raw_nine
      and ?keccak256.0 = stand_in_digest and parseEipSignature = ref_parseEipSignature
      and fs = ex_fields]
  from T b have r: "parseCip64 rlp_decode stand_in_digest ref_parseEipSignature ex_raw_nine =
     Inl (INVALID_ARGUMENT ''invalid field count for transaction type: CIP_64_TYPE_NUMBER''
            ''data'' (VBytes ex_raw_nine)) \<and>
   plugin_parseCip64 rlp_decode stand_in_digest ref_parseEipSignature ex_raw_nine =
     Inl (INVALID_ARGUMENT ''invalid field count for transaction type: CIP_64_TYPE_NUMBER''
            ''data'' (VBytes ex_raw_nine))"
    by blast
  from r p10 ex_raw_nine_decoded ex_raw_unsigned_decoded l9 l10 show ?thesis
    by blast
qed

text \<open>
  C9. On a payload whose decoded list has 10 or 13 elements, whose element 9 is the empty
  byte string and whose other elements decode (with a signature the shared routine
  accepts, when there are 13), \<open>parseCip64\<close> does not fail: celo.ts returns a field set
  whose \<open>feeCurrency\<close> is \<open>undefined\<close>, the plugin one whose
  \<open>customData.feeCurrency\<close> is \<open>null\<close>. The parse path does not require a fee
  currency; the serialize path does (C6).
\<close>

theorem empty_feeCurrency_accepted:
  assumes "decodeRlp (drop 1 raw) = Some (RList fs)"
    and "length fs = 10 \<or> length fs = 13"
    and "fs ! 9 = RBytes []"
    and "other_fields_decode fs"
    and "length fs = 13 \<longrightarrow> parseEipSignature (drop 10 fs) \<noteq> None"
  shows "(\<exists>tx. parseCip64 decodeRlp keccak256 parseEipSignature raw = Inr tx \<and>
               tx_feeCurrency tx = JUndefined) \<and>
         (\<exists>tx. plugin_parseCip64 decodeRlp keccak256 parseEipSignature raw = Inr tx \<and>
               tx_customData tx = Some \<lparr>customData_feeCurrency = JNull\<rparr>)"
proof -
  have h: "handleAddress (fs ! 9) = Inr None"
    using assms(3) by simp
  show ?thesis
    using parseCip64_succeeds [where decodeRlp = decodeRlp and raw = raw and fs = fs
        and ?keccak256.0 = keccak256 and parseEipSignature = parseEipSignature,
        OF assms(1,2,4) h assms(5)]
      plugin_parseCip64_succeeds [where decodeRlp = decodeRlp and raw = raw and fs = fs
        and ?keccak256.0 = keccak256 and parseEipSignature = parseEipSignature,
        OF assms(1,2,4) h assms(5)]
    by (simp add: orUndefined_def nullable_def)
qed

text \<open>The example payload with an empty tenth element.\<close>

theorem empty_feeCurrency_accepted_witness:
  "rlp_decode (drop 1 ex_raw_no_fee) = Some (RList (ex_fields @ [RBytes []])) \<and>
   length (ex_fields @ [RBytes []]) = 10 \<and>
   (ex_fields @ [RBytes []]) ! 9 = RBytes [] \<and>
   other_fields_decode (ex_fields @ [RBytes []]) \<and>
   parseCip64 rlp_decode stand_in_digest ref_parseEipSignature ex_raw_no_fee =
     Inr ((field_set ex_tx)\<lparr>tx_feeCurrency := JUndefined\<rparr>) \<and>
   plugin_parseCip64 rlp_decode stand_in_digest ref_parseEipSignature ex_raw_no_fee =
     Inr ((field_set ex_tx)\<lparr>tx_feeCurrency := JUndefined,
            tx_customData := Some \<lparr>customData_feeCurrency = JNull\<rparr>\<rparr>)"
proof -
  have l: "length (ex_fields @ [RBytes []]) = 10 \<or> length (ex_fields @ [RBytes []]) = 13"
    by (simp add: ex_fields_def)
  have n: "(ex_fields @ [RBytes []]) ! 9 = RBytes []"
    by (simp add: ex_fields_def)
  have o: "other_fields_decode (ex_fields @ [RBytes []])"
    by (simp add: other_fields_decode_def ex_fields_def MAX_SAFE_INTEGER_def fromBe_def)
  have g: "length (ex_fields @ [RBytes []]) = 13 \<longrightarrow>
      ref_parseEipSignature (drop 10 (ex_fields @ [RBytes []])) \<noteq> None"
    by (simp add: ex_fields_def)
  have p: "parseCip64 rlp_decode stand_in_digest ref_parseEipSignature ex_raw_no_fee =
     Inr ((field_set ex_tx)\<lparr>tx_feeCurrency := JUndefined\<rparr>)"
    by (simp add: parseCip64_def ex_raw_no_fee_decoded [unfolded One_nat_def] ex_fields_def field_set_def ex_tx_def
        fromBe_def MAX_SAFE_INTEGER_def orUndefined_def nullable_def)
  have q: "plugin_parseCip64 rlp_decode stand_in_digest ref_parseEipSignature ex_raw_no_fee =
     Inr ((field_set ex_tx)\<lparr>tx_feeCurrency := JUndefined,
            tx_customData := Some \<lparr>customData_feeCurrency = JNull\<rparr>\<rparr>)"
    by (simp add: plugin_parseCip64_def ex_raw_no_fee_decoded [unfolded One_nat_def] ex_fields_def field_set_def
        ex_tx_def fromBe_def MAX_SAFE_INTEGER_def nullable_def)
  note T = empty_feeCurrency_accepted [where decodeRlp = rlp_decode and raw = ex_raw_no_fee
      and ?keccak256.0 = stand_in_digest and parseEipSignature = ref_parseEipSignature,
      OF ex_raw_no_fee_decoded l n o g]
  from T p have u: "tx_feeCurrency ((field_set ex_tx)\<lparr>tx_feeCurrency := JUndefined\<rparr>) =
      JUndefined"
    by auto
  have l10: "length (ex_fields @ [RBytes []]) = 10"
    by (simp add: ex_fields_def)
  from u p q l10 n o ex_raw_no_fee_decoded show ?thesis
    by blast
qed


lemma ex_no_fee_parse:
  "parseCip64 rlp_decode stand_in_digest ref_parseEipSignature ex_raw_no_fee =
     Inr ((field_set ex_tx)\<lparr>tx_feeCurrency := JUndefined\<rparr>)"
  by (simp add: parseCip64_def ex_raw_no_fee_decoded [unfolded One_nat_def] ex_fields_def
      field_set_def ex_tx_def fromBe_def MAX_SAFE_INTEGER_def orUndefined_def nullable_def)

lemma ex_no_fee_plugin_parse:
  "plugin_parseCip64 rlp_decode stand_in_digest ref_parseEipSignature ex_raw_no_fee =
     Inr ((field_set ex_tx)\<lparr>tx_feeCurrency := JUndefined,
            tx_customData := Some \<lparr>customData_feeCurrency = JNull\<rparr>\<rparr>)"
  by (simp add: plugin_parseCip64_def ex_raw_no_fee_decoded [unfolded One_nat_def]
      ex_fields_def field_set_def ex_tx_def fromBe_def MAX_SAFE_INTEGER_def nullable_def)

lemma ex_unsigned_parse:
  "parseCip64 rlp_decode stand_in_digest ref_parseEipSignature ex_raw_unsigned =
     Inr (field_set ex_tx)"
  by (simp add: parseCip64_def ex_raw_unsigned_decoded [unfolded One_nat_def] ex_fields_def
      field_set_def ex_tx_def fromBe_def MAX_SAFE_INTEGER_def ex_address_def orUndefined_def
      nullable_def)

text \<open>
  The example transaction serializes to the same bytes in both variants. Its payload
  parses to the same values and the same fee currency address in both; the payload with
  an empty tenth element parses to the same values in both, with \<open>undefined\<close> for the fee
  currency in one and \<open>null\<close> in the other.
\<close>

theorem variants_agree_witness:
  "serialize rlp_encode ex_tx None = Inr ex_raw_unsigned \<and>
   plugin_serialize rlp_encode ex_tx None = Inr ex_raw_unsigned \<and>
   length ex_address = 20 \<and>
   parseCip64 rlp_decode stand_in_digest ref_parseEipSignature ex_raw_unsigned =
     Inr (field_set ex_tx) \<and>
   celo_decoded (field_set ex_tx) = (decoded_values (field_set ex_tx), JHex ex_address) \<and>
   map_sum id plugin_decoded
     (plugin_parseCip64 rlp_decode stand_in_digest ref_parseEipSignature ex_raw_unsigned) =
     Inr (decoded_values (field_set ex_tx), JHex ex_address) \<and>
   map_sum id celo_decoded
     (parseCip64 rlp_decode stand_in_digest ref_parseEipSignature ex_raw_no_fee) =
     Inr (decoded_values (field_set ex_tx), JUndefined) \<and>
   map_sum id plugin_decoded
     (plugin_parseCip64 rlp_decode stand_in_digest ref_parseEipSignature ex_raw_no_fee) =
     Inr (decoded_values (field_set ex_tx), JNull)"
proof -
  let ?n = "(field_set ex_tx)\<lparr>tx_feeCurrency := JUndefined\<rparr>"
  have a: "feeCurrency ex_tx = JHex ex_address" "length ex_address = 20" "to_ok ex_tx"
    by (simp_all add: ex_tx_def ex_address_def to_ok_def)
  have fl: "0x7b # rlp_encode (RList (spec_field_list ex_tx ex_address)) = ex_raw_unsigned"
    by (simp add: spec_field_list_def ex_tx_def ex_address_def ex_raw_unsigned_def
        rlp_prefix_def)
  have s: "serialize rlp_encode ex_tx None = Inr ex_raw_unsigned"
    using serialize_ok [OF a, of rlp_encode None]
    by (simp only: option.case append_Nil2 fl)
  have cf: "celo_decoded (field_set ex_tx) =
      (decoded_values (field_set ex_tx), JHex ex_address)"
    by (simp add: celo_decoded_def field_set_def ex_tx_def)
  have cn: "celo_decoded ?n = (decoded_values (field_set ex_tx), JUndefined)"
    by (simp add: celo_decoded_def decoded_values_def)
  have dn: "decoded_values ?n = decoded_values (field_set ex_tx)"
    by (simp add: decoded_values_def)
  note T = variants_agree [of rlp_encode ex_tx None rlp_decode stand_in_digest
      ref_parseEipSignature ex_raw_unsigned]
  from T have ps: "plugin_serialize rlp_encode ex_tx None = serialize rlp_encode ex_tx None"
    by blast
  from T ex_unsigned_parse obtain tx' fs where
    p: "plugin_parseCip64 rlp_decode stand_in_digest ref_parseEipSignature ex_raw_unsigned =
        Inr tx'"
    and d: "(\<exists>a. length a = 20 \<and> fs ! 9 = RBytes a \<and>
               celo_decoded (field_set ex_tx) = (decoded_values (field_set ex_tx), JHex a) \<and>
               plugin_decoded tx' = (decoded_values (field_set ex_tx), JHex a)) \<or>
          (fs ! 9 = RBytes [] \<and>
           celo_decoded (field_set ex_tx) = (decoded_values (field_set ex_tx), JUndefined) \<and>
           plugin_decoded tx' = (decoded_values (field_set ex_tx), JNull))"
    by blast
  from d cf have "plugin_decoded tx' = (decoded_values (field_set ex_tx), JHex ex_address)"
    by auto
  with p have 1: "map_sum id plugin_decoded
     (plugin_parseCip64 rlp_decode stand_in_digest ref_parseEipSignature ex_raw_unsigned) =
     Inr (decoded_values (field_set ex_tx), JHex ex_address)"
    by simp
  note U = variants_agree [of rlp_encode ex_tx None rlp_decode stand_in_digest
      ref_parseEipSignature ex_raw_no_fee]
  from U ex_no_fee_parse obtain tx'' gs where
    q: "plugin_parseCip64 rlp_decode stand_in_digest ref_parseEipSignature ex_raw_no_fee =
        Inr tx''"
    and e: "(\<exists>a. length a = 20 \<and> gs ! 9 = RBytes a \<and>
               celo_decoded ?n = (decoded_values ?n, JHex a) \<and>
               plugin_decoded tx'' = (decoded_values ?n, JHex a)) \<or>
          (gs ! 9 = RBytes [] \<and>
           celo_decoded ?n = (decoded_values ?n, JUndefined) \<and>
           plugin_decoded tx'' = (decoded_values ?n, JNull))"
    by blast
  from e cn dn have "plugin_decoded tx'' = (decoded_values (field_set ex_tx), JNull)"
    by auto
  with q have 2: "map_sum id plugin_decoded
     (plugin_parseCip64 rlp_decode stand_in_digest ref_parseEipSignature ex_raw_no_fee) =
     Inr (decoded_values (field_set ex_tx), JNull)"
    by simp
  have 3: "map_sum id celo_decoded
     (parseCip64 rlp_decode stand_in_digest ref_parseEipSignature ex_raw_no_fee) =
     Inr (decoded_values (field_set ex_tx), JUndefined)"
    by (simp add: ex_no_fee_parse cn)
  from s ps a(2) ex_unsigned_parse cf 1 2 3 show ?thesis
    by (simp only: simp_thms)
qed

text \<open>
  On the payload with an empty tenth element the decoded values of the two variants are
  not equal: the fee currency is \<open>undefined\<close> in the result of celo.ts (line 94) and
  \<open>null\<close> in the plugin's (line 164).
\<close>

theorem variants_differ_on_empty_feeCurrency:
  "map_sum id celo_decoded
     (parseCip64 rlp_decode stand_in_digest ref_parseEipSignature ex_raw_no_fee) =
     Inr (decoded_values (field_set ex_tx), JUndefined) \<and>
   map_sum id plugin_decoded
     (plugin_parseCip64 rlp_decode stand_in_digest ref_parseEipSignature ex_raw_no_fee) =
     Inr (decoded_values (field_set ex_tx), JNull) \<and>
   map_sum id plugin_decoded
     (plugin_parseCip64 rlp_decode stand_in_digest ref_parseEipSignature ex_raw_no_fee) \<noteq>
   map_sum id celo_decoded
     (parseCip64 rlp_decode stand_in_digest ref_parseEipSignature ex_raw_no_fee)"
  by (simp add: ex_no_fee_parse ex_no_fee_plugin_parse celo_decoded_def plugin_decoded_def
      customData_fee_def decoded_values_def)

section \<open>Construction and request rewriting\<close>

text \<open>
  C10. In the plugin, \<open>create\<close> on a field set of type 123 whose \<open>customData\<close> is
  present and has no \<open>feeCurrency\<close> enters the branch that builds a
  \<open>Cip64Transaction\<close>; the assignment of the absent fee currency through the setter
  fails with the address error, and that error is the result, whatever the constructor of
  the base class would have returned: there is no fallback and no transaction.
\<close>

theorem create_customData_without_feeCurrency:
  assumes "tx_type src = Some 123" and "tx_customData src = Some cd"
    and "customData_feeCurrency cd = JUndefined"
  shows "create decodeRlp keccak256 parseEipSignature Transaction_from (FromObject src) =
     Inl (INVALID_ARGUMENT ''invalid address'' ''address'' (VJs JUndefined))"
  using assms
  by (simp add: create_def create_from_object_def CIP_64_TYPE_NUMBER_def set_feeCurrency_def)

text \<open>With a base class constructor that accepts every input, the result is still the error.\<close>

theorem create_customData_without_feeCurrency_witness:
  "tx_type ex_object = Some 123 \<and>
   tx_customData ex_object = Some \<lparr>customData_feeCurrency = JUndefined\<rparr> \<and>
   ex_Transaction_from (FromObject ex_object) = Inr new_Transaction \<and>
   create rlp_decode stand_in_digest ref_parseEipSignature ex_Transaction_from
     (FromObject ex_object) =
     Inl (INVALID_ARGUMENT ''invalid address'' ''address'' (VJs JUndefined))"
proof -
  have t: "tx_type ex_object = Some 123"
    by (simp add: ex_object_def field_set_def CIP_64_TYPE_NUMBER_def)
  have c: "tx_customData ex_object = Some \<lparr>customData_feeCurrency = JUndefined\<rparr>"
    by (simp add: ex_object_def)
  have u: "customData_feeCurrency \<lparr>customData_feeCurrency = JUndefined\<rparr> = JUndefined"
    by simp
  from create_customData_without_feeCurrency [OF t c u, of rlp_decode stand_in_digest
      ref_parseEipSignature ex_Transaction_from] t c
  show ?thesis by (simp add: ex_Transaction_from_def)
qed

text \<open>
  Both rewrites as one conditional: the guard, the update of the first argument object,
  and the TypeError when the first argument is no object.
\<close>

lemma get_prop_object [simp]:
  "get_prop h (JRef a) k = Inr (case h a k of Some x \<Rightarrow> x | None \<Rightarrow> JUndefined)"
  by (simp add: get_prop_def)

lemma getRpcRequest_eq:
  "getRpcRequest h (Some request) context =
     (if rpc_method request = ''eth_estimateGas'' \<and> action_method context = ''estimateGas'' \<and>
         truthy (declared_feeCurrency h context)
      then (case first_arg request of
              JRef a \<Rightarrow>
                Inr (h(a := (h a)(''feeCurrency'' \<mapsto> declared_feeCurrency h context)),
                     Some request)
            | _ \<Rightarrow> Inl TYPE_ERROR)
      else Inr (h, Some request))"
  by (cases "first_arg request")
     (simp_all add: getRpcRequest_def declared_feeCurrency_def set_prop_def)

lemma intercept_eq:
  "intercept h request context =
     (if rpc_method request = ''eth_estimateGas'' \<and> action_method context = ''estimateGas'' \<and>
         truthy (plugin_declared_feeCurrency h context)
      then (case first_arg request of
              JRef a \<Rightarrow>
                Inr (h(a := (h a)(''feeCurrency'' \<mapsto> plugin_declared_feeCurrency h context)),
                     request)
            | _ \<Rightarrow> Inl TYPE_ERROR)
      else Inr (h, request))"
proof (cases "h (transaction context) ''customData''")
  case None
  then show ?thesis
    by (simp add: intercept_def plugin_declared_feeCurrency_def)
next
  case (Some cd)
  then show ?thesis
    by (cases cd; cases "first_arg request")
       (simp_all add: intercept_def plugin_declared_feeCurrency_def get_prop_def set_prop_def)
qed

text \<open>
  C8, as amended. The rewrite of the gas-estimation request returns the request it was
  given and changes the store only at the request's first argument object, which it
  updates in place. If the request is the gas-estimation call (\<open>eth_estimateGas\<close>
  under the action \<open>estimateGas\<close>), the context's transaction declares a truthy fee
  currency and the first argument is an object, then that object gains the key
  \<open>feeCurrency\<close> with the declared value and every other object and key of the store
  is as before. In every other case the store and the request are returned as they were;
  only a gas-estimation call with a declared fee currency whose first argument is no
  object raises a TypeError. \<open>getRpcRequest\<close> of celo.ts also passes an absent
  request through.
\<close>

theorem rewrite_updates_first_argument_in_place:
  "getRpcRequest h None context = Inr (h, None) \<and>
   getRpcRequest h (Some request) context =
     (if rpc_method request = ''eth_estimateGas'' \<and> action_method context = ''estimateGas'' \<and>
         truthy (declared_feeCurrency h context)
      then (case first_arg request of
              JRef a \<Rightarrow>
                Inr (h(a := (h a)(''feeCurrency'' \<mapsto> declared_feeCurrency h context)),
                     Some request)
            | _ \<Rightarrow> Inl TYPE_ERROR)
      else Inr (h, Some request)) \<and>
   intercept h request context =
     (if rpc_method request = ''eth_estimateGas'' \<and> action_method context = ''estimateGas'' \<and>
         truthy (plugin_declared_feeCurrency h context)
      then (case first_arg request of
              JRef a \<Rightarrow>
                Inr (h(a := (h a)(''feeCurrency'' \<mapsto> plugin_declared_feeCurrency h context)),
                     request)
            | _ \<Rightarrow> Inl TYPE_ERROR)
      else Inr (h, request))"
proof -
  have "getRpcRequest h None context = Inr (h, None)"
    by (simp add: getRpcRequest_def)
  with getRpcRequest_eq [of h request "context"] intercept_eq [of h request "context"]
  show ?thesis by (simp only: simp_thms)
qed

lemma ex_heap_values:
  "first_arg ex_request = JRef 1"
  "declared_feeCurrency ex_heap ex_context = JHex ex_address"
  "plugin_declared_feeCurrency ex_heap ex_plugin_context = JHex ex_address"
  "declared_feeCurrency ex_heap ex_plugin_context = JUndefined"
  "plugin_declared_feeCurrency ex_heap ex_context = JUndefined"
  "ex_heap 1 ''feeCurrency'' = None"
  "ex_heap_after 1 ''feeCurrency'' = Some (JHex ex_address)"
  by (simp_all add: first_arg_def ex_request_def declared_feeCurrency_def
      plugin_declared_feeCurrency_def ex_heap_def ex_heap_after_def ex_context_def
      ex_plugin_context_def)

lemma ex_heap_changed: "ex_heap_after \<noteq> ex_heap"
proof
  assume "ex_heap_after = ex_heap"
  then have "ex_heap_after 1 ''feeCurrency'' = ex_heap 1 ''feeCurrency''" by simp
  then show False unfolding ex_heap_values by simp
qed

text \<open>
  C8 as stated calls the rewrite pure and free of side effects. It is not: the object the
  caller passed as first argument, at address 1, has no \<open>feeCurrency\<close> before the call
  and has one after it, in celo.ts and in the plugin; the store after the call is not the
  store before it.
\<close>

theorem rewrite_side_effect_counterexample:
  "getRpcRequest ex_heap (Some ex_request) ex_context = Inr (ex_heap_after, Some ex_request) \<and>
   intercept ex_heap ex_request ex_plugin_context = Inr (ex_heap_after, ex_request) \<and>
   ex_heap 1 ''feeCurrency'' = None \<and>
   ex_heap_after 1 ''feeCurrency'' = Some (JHex ex_address) \<and>
   ex_heap_after \<noteq> ex_heap"
proof -
  have m: "rpc_method ex_request = ''eth_estimateGas''"
    "action_method ex_context = ''estimateGas''" "action_method ex_plugin_context = ''estimateGas''"
    by (simp_all add: ex_request_def ex_context_def ex_plugin_context_def)
  have 1: "getRpcRequest ex_heap (Some ex_request) ex_context =
      Inr (ex_heap_after, Some ex_request)"
    by (simp add: getRpcRequest_eq m ex_heap_values ex_heap_after_def)
  have 2: "intercept ex_heap ex_request ex_plugin_context = Inr (ex_heap_after, ex_request)"
    by (simp add: intercept_eq m ex_heap_values ex_heap_after_def)
  from 1 2 ex_heap_values(6,7) ex_heap_changed show ?thesis by blast
qed

text \<open>
  Cases in which nothing changes: no request, a transaction that declares no fee currency
  where the variant looks for it, another method; and the TypeError on an empty argument
  list.
\<close>

theorem rewrite_updates_first_argument_in_place_witness:
  "getRpcRequest ex_heap None ex_context = Inr (ex_heap, None) \<and>
   getRpcRequest ex_heap (Some ex_request) ex_plugin_context = Inr (ex_heap, Some ex_request) \<and>
   intercept ex_heap ex_request ex_context = Inr (ex_heap, ex_request) \<and>
   getRpcRequest ex_heap (Some (ex_request\<lparr>args := []\<rparr>)) ex_context = Inl TYPE_ERROR \<and>
   intercept ex_heap (ex_request\<lparr>rpc_method := ''eth_call''\<rparr>) ex_plugin_context =
     Inr (ex_heap, ex_request\<lparr>rpc_method := ''eth_call''\<rparr>)"
proof -
  have m: "rpc_method ex_request = ''eth_estimateGas''"
    "action_method ex_context = ''estimateGas''" "action_method ex_plugin_context = ''estimateGas''"
    by (simp_all add: ex_request_def ex_context_def ex_plugin_context_def)
  note T = rewrite_updates_first_argument_in_place
  from T [of ex_heap ex_context ex_request]
  have 1: "getRpcRequest ex_heap None ex_context = Inr (ex_heap, None)"
    and 3: "intercept ex_heap ex_request ex_context = Inr (ex_heap, ex_request)"
    by (simp_all add: m ex_heap_values)
  from T [of ex_heap ex_plugin_context ex_request]
  have 2: "getRpcRequest ex_heap (Some ex_request) ex_plugin_context =
      Inr (ex_heap, Some ex_request)"
    by (simp add: m ex_heap_values)
  from T [of ex_heap ex_context "ex_request\<lparr>args := []\<rparr>"]
  have 4: "getRpcRequest ex_heap (Some (ex_request\<lparr>args := []\<rparr>)) ex_context = Inl TYPE_ERROR"
    by (simp add: m ex_heap_values first_arg_def)
  from T [of ex_heap ex_plugin_context "ex_request\<lparr>rpc_method := ''eth_call''\<rparr>"]
  have 5: "intercept ex_heap (ex_request\<lparr>rpc_method := ''eth_call''\<rparr>) ex_plugin_context =
     Inr (ex_heap, ex_request\<lparr>rpc_method := ''eth_call''\<rparr>)"
    by simp
  from 1 2 3 4 5 show ?thesis by blast
qed


end
